theory Spec2Isabelle
  imports Complex_Main
begin

section \<open>JavaScript strings\<close>

text \<open>
  A string is the list of its UTF-16 code units, and a character of the model is a code
  unit from U+0000 to U+00FF: \<open>CHR n\<close> stands for the code unit \<open>n\<close>. Strings that
  hold a larger code unit are outside the model.

  \<^verbatim>\<open>String.prototype.trim\<close> strips the white space and the line terminators of
  ECMAScript. Below U+0100 these are tab, line feed, vertical tab, form feed, carriage
  return, space and the no-break space U+00A0 (the others are U+1680, U+2000 to U+200A,
  U+2028, U+2029, U+202F, U+205F, U+3000 and U+FEFF).
\<close>

definition isWhiteSpace :: "char \<Rightarrow> bool" where
  "isWhiteSpace c =
     (c = CHR 0x09 \<or> c = CHR 0x0A \<or> c = CHR 0x0B \<or> c = CHR 0x0C \<or> c = CHR 0x0D \<or> c = CHR 0x20
      \<or> c = CHR 0xA0)"

definition trim :: "string \<Rightarrow> string" where
  "trim s = rev (dropWhile isWhiteSpace (rev (dropWhile isWhiteSpace s)))"

text \<open>\<^verbatim>\<open>s.split('\n')\<close>: the pieces between line feeds; the empty string gives one empty piece.\<close>

fun split_nl :: "string \<Rightarrow> string list" where
  "split_nl [] = [[]]"
| "split_nl (c # cs) =
     (if c = CHR 0x0A then [] # split_nl cs
      else (case split_nl cs of [] \<Rightarrow> [[c]] | l # ls \<Rightarrow> (c # l) # ls))"

text \<open>\<^verbatim>\<open>parts.join(sep)\<close>\<close>

fun join :: "string list \<Rightarrow> string \<Rightarrow> string" where
  "join [] sep = []"
| "join [x] sep = x"
| "join (x # y # ys) sep = x @ sep @ join (y # ys) sep"

text \<open>\<^verbatim>\<open>s.includes(pat)\<close>\<close>

fun startsWith :: "string \<Rightarrow> string \<Rightarrow> bool" where
  "startsWith s [] = True"
| "startsWith [] (p # ps) = False"
| "startsWith (c # cs) (p # ps) = (c = p \<and> startsWith cs ps)"

fun includes_str :: "string \<Rightarrow> string \<Rightarrow> bool" where
  "includes_str [] pat = (pat = [])"
| "includes_str (c # cs) pat = (startsWith (c # cs) pat \<or> includes_str cs pat)"

text \<open>A non-negative integer inside a template literal: its decimal digits.\<close>

definition digit :: "nat \<Rightarrow> char" where
  "digit d = ''0123456789'' ! d"

fun toString_nat :: "nat \<Rightarrow> string" where
  "toString_nat n = (if n < 10 then [digit n] else toString_nat (n div 10) @ [digit (n mod 10)])"

declare toString_nat.simps [simp del]

definition LF :: string where
  "LF = [CHR 0x0A]"

section \<open>Errors\<close>

text \<open>
  \<^verbatim>\<open>AIClientError(message, provider, statusCode?, originalError?)\<close> of
  \<^verbatim>\<open>src/src/ai-client.ts\<close>, next to the built-in error classes the code throws or
  receives. An absent field is \<open>None\<close>.
\<close>

datatype error =
    Error string
  | TypeError string
  | SyntaxError string
  | ReferenceError string
  | AIClientError string "string option" "nat option" "error option"

text \<open>Reading \<^verbatim>\<open>e.message\<close>, \<^verbatim>\<open>e.statusCode\<close> and \<^verbatim>\<open>e.provider\<close> of a caught error.\<close>

fun message :: "error \<Rightarrow> string" where
  "message (Error m) = m"
| "message (TypeError m) = m"
| "message (SyntaxError m) = m"
| "message (ReferenceError m) = m"
| "message (AIClientError m p s c) = m"

fun statusCode :: "error \<Rightarrow> nat option" where
  "statusCode (AIClientError m p s c) = s"
| "statusCode e = None"

fun error_provider :: "error \<Rightarrow> string option" where
  "error_provider (AIClientError m p s c) = p"
| "error_provider e = None"

fun is_AIClientError :: "error \<Rightarrow> bool" where
  "is_AIClientError (AIClientError m p s c) = True"
| "is_AIClientError e = False"

section \<open>Configuration\<close>

text \<open>
  \<^verbatim>\<open>BaseAIConfig\<close>: \<^verbatim>\<open>apiKey\<close> is a string, every other field may be absent.
  Numbers are exact: \<^verbatim>\<open>maxTokens\<close> an integer, \<^verbatim>\<open>temperature\<close> a rational.
\<close>

record BaseAIConfig =
  apiKey :: string
  baseURL :: "string option"
  model :: "string option"
  maxTokens :: "int option"
  temperature :: "rat option"

text \<open>\<^verbatim>\<open>Required<BaseAIConfig>\<close>: the configuration a client holds.\<close>

record RequiredConfig =
  the_apiKey :: string
  the_baseURL :: string
  the_model :: string
  the_maxTokens :: int
  the_temperature :: rat

text \<open>
  \<^verbatim>\<open>value || fallback\<close> on an optional field: the fallback replaces an absent value and
  every falsy one (the empty string, the number 0).
\<close>

definition or_string :: "string option \<Rightarrow> string \<Rightarrow> string" where
  "or_string v d = (case v of None \<Rightarrow> d | Some s \<Rightarrow> if s = [] then d else s)"

definition or_int :: "int option \<Rightarrow> int \<Rightarrow> int" where
  "or_int v d = (case v of None \<Rightarrow> d | Some n \<Rightarrow> if n = 0 then d else n)"

definition or_rat :: "rat option \<Rightarrow> rat \<Rightarrow> rat" where
  "or_rat v d = (case v of None \<Rightarrow> d | Some x \<Rightarrow> if x = 0 then d else x)"

subsection \<open>BaseAIClient: validation at construction\<close>

text \<open>
  \<^verbatim>\<open>BaseAIClient.validateConfig\<close>. The second argument is \<^verbatim>\<open>this.provider\<close> as it
  stands when the method runs.
\<close>

definition validateConfig :: "BaseAIConfig \<Rightarrow> string option \<Rightarrow> error + unit" where
  "validateConfig config this_provider =
     (if apiKey config = [] \<or> trim (apiKey config) = [] then
        Inl (AIClientError ''API key is required and must be a non-empty string'' this_provider None None)
      else if (case temperature config of None \<Rightarrow> False | Some t \<Rightarrow> t < 0 \<or> t > 1) then
        Inl (AIClientError ''Temperature must be between 0.0 and 1.0'' this_provider None None)
      else if (case maxTokens config of None \<Rightarrow> False | Some m \<Rightarrow> m \<le> 0) then
        Inl (AIClientError ''Max tokens must be a positive number'' this_provider None None)
      else Inr ())"

record BaseAIClient =
  client_config :: RequiredConfig
  client_provider :: string

text \<open>
  The constructor of \<^verbatim>\<open>BaseAIClient\<close>: it validates before \<^verbatim>\<open>this.provider\<close> is
  assigned, so a validation error carries no provider. \<^verbatim>\<open>normalizeConfig\<close> is abstract
  and is a parameter here.
\<close>

definition BaseAIClient_constructor ::
  "(BaseAIConfig \<Rightarrow> RequiredConfig) \<Rightarrow> BaseAIConfig \<Rightarrow> string \<Rightarrow> error + BaseAIClient" where
  "BaseAIClient_constructor normalizeConfig config provider =
     (case validateConfig config None of
        Inl e \<Rightarrow> Inl e
      | Inr u \<Rightarrow> Inr \<lparr>client_config = normalizeConfig config, client_provider = provider\<rparr>)"

subsection \<open>The exported clients\<close>

text \<open>
  The constructors of \<^verbatim>\<open>ClaudeClient\<close> and \<^verbatim>\<open>OpenAIClient\<close>. Neither class extends
  \<^verbatim>\<open>BaseAIClient\<close>; each fills the defaults and has no statement that throws.
\<close>

definition ClaudeClient_constructor :: "BaseAIConfig \<Rightarrow> error + RequiredConfig" where
  "ClaudeClient_constructor config =
     Inr \<lparr>the_apiKey = apiKey config,
          the_baseURL = or_string (baseURL config) ''https://api.anthropic.com'',
          the_model = or_string (model config) ''claude-3-haiku-20240307'',
          the_maxTokens = or_int (maxTokens config) 100,
          the_temperature = or_rat (temperature config) (3 / 10)\<rparr>"

definition OpenAIClient_constructor :: "BaseAIConfig \<Rightarrow> error + RequiredConfig" where
  "OpenAIClient_constructor config =
     Inr \<lparr>the_apiKey = apiKey config,
          the_baseURL = or_string (baseURL config) ''https://api.openai.com/v1'',
          the_model = or_string (model config) ''gpt-3.5-turbo'',
          the_maxTokens = or_int (maxTokens config) 100,
          the_temperature = or_rat (temperature config) (3 / 10)\<rparr>"

record AIProviderConfig =
  provider :: string
  config :: BaseAIConfig

datatype client = ClaudeClient RequiredConfig | OpenAIClient RequiredConfig

text \<open>
  \<^verbatim>\<open>createAIClient\<close>: the tag \<^verbatim>\<open>'claude'\<close> selects the Claude client, every other
  value takes the \<^verbatim>\<open>else\<close> branch.
\<close>

definition createAIClient :: "AIProviderConfig \<Rightarrow> error + client" where
  "createAIClient providerConfig =
     (if provider providerConfig = ''claude'' then
        (case ClaudeClient_constructor (config providerConfig) of
           Inl e \<Rightarrow> Inl e | Inr c \<Rightarrow> Inr (ClaudeClient c))
      else
        (case OpenAIClient_constructor (config providerConfig) of
           Inl e \<Rightarrow> Inl e | Inr c \<Rightarrow> Inr (OpenAIClient c)))"

section \<open>JavaScript values at the wire boundary\<close>

text \<open>
  A parsed response body is an untyped value (\<^verbatim>\<open>any\<close>). \<open>JUndefined\<close> is what reading
  a missing property gives. Numbers are exact rationals.
\<close>

datatype jsval =
    JUndefined
  | JNull
  | JBool bool
  | JNum rat
  | JStr string
  | JArr "jsval list"
  | JObj "(string \<times> jsval) list"

fun truthy :: "jsval \<Rightarrow> bool" where
  "truthy JUndefined = False"
| "truthy JNull = False"
| "truthy (JBool b) = b"
| "truthy (JNum n) = (n \<noteq> 0)"
| "truthy (JStr s) = (s \<noteq> [])"
| "truthy (JArr xs) = True"
| "truthy (JObj kvs) = True"

text \<open>
  \<^verbatim>\<open>v.k\<close> for the property names the parsers read (\<^verbatim>\<open>content\<close>, \<^verbatim>\<open>type\<close>,
  \<^verbatim>\<open>text\<close>, \<^verbatim>\<open>choices\<close>, \<^verbatim>\<open>message\<close>, \<^verbatim>\<open>finish_reason\<close>, \<^verbatim>\<open>model\<close>,
  \<^verbatim>\<open>usage\<close> and the token counts), none of which a built-in prototype defines: an
  object gives the stored value or \<^verbatim>\<open>undefined\<close>, any other value but \<^verbatim>\<open>null\<close> and
  \<^verbatim>\<open>undefined\<close> gives \<^verbatim>\<open>undefined\<close>, and those two throw a \<^verbatim>\<open>TypeError\<close> (its
  message is the engine's; V8's wording is used). An object is the list of its
  properties, each key once, as \<^verbatim>\<open>JSON.parse\<close> builds it.
\<close>

fun lookup_prop :: "jsval \<Rightarrow> string \<Rightarrow> jsval" where
  "lookup_prop (JObj kvs) k = (case map_of kvs k of None \<Rightarrow> JUndefined | Some v \<Rightarrow> v)"
| "lookup_prop v k = JUndefined"

definition nullish_read :: "string \<Rightarrow> string \<Rightarrow> error" where
  "nullish_read what k =
     TypeError (''Cannot read properties of '' @ what @ '' (reading '' @ [CHR 0x27] @ k @ [CHR 0x27] @ '')'')"

fun getProp :: "jsval \<Rightarrow> string \<Rightarrow> error + jsval" where
  "getProp JUndefined k = Inl (nullish_read ''undefined'' k)"
| "getProp JNull k = Inl (nullish_read ''null'' k)"
| "getProp v k = Inr (lookup_prop v k)"

text \<open>\<^verbatim>\<open>v[0]\<close> of a truthy value: the first element, the first character, or the key "0".\<close>

fun index0 :: "jsval \<Rightarrow> jsval" where
  "index0 (JArr []) = JUndefined"
| "index0 (JArr (x # xs)) = x"
| "index0 (JStr []) = JUndefined"
| "index0 (JStr (c # cs)) = JStr [c]"
| "index0 (JObj kvs) = (case map_of kvs ''0'' of None \<Rightarrow> JUndefined | Some v \<Rightarrow> v)"
| "index0 v = JUndefined"

text \<open>
  \<^verbatim>\<open>v.trim()\<close> of a truthy value: a string is trimmed; a number, \<^verbatim>\<open>true\<close>, an array or
  an object has no callable \<^verbatim>\<open>trim\<close> and the call throws. The second argument is the
  text of the expression, which V8 puts into the message.
\<close>

fun js_trim :: "jsval \<Rightarrow> string \<Rightarrow> error + string" where
  "js_trim (JStr s) expr = Inr (trim s)"
| "js_trim v expr = Inl (TypeError (expr @ ''.trim is not a function''))"

text \<open>\<^verbatim>\<open>v || 0\<close>\<close>

definition or_zero :: "jsval \<Rightarrow> jsval" where
  "or_zero v = (if truthy v then v else JNum 0)"

section \<open>Completion records\<close>

datatype CompletionType = completion | suggestion | snippet

record CompletionSuggestion =
  sug_text :: string
  confidence :: "rat option"
  sug_type :: "CompletionType option"

text \<open>
  The token counts are copied from the wire as they are. The Claude parser adds two of
  them with \<^verbatim>\<open>+\<close>, whose result depends on their run-time types; the sum is kept as a
  term.
\<close>

datatype jsexpr = Value jsval | Plus jsval jsval

record TokenUsage =
  promptTokens :: jsval
  completionTokens :: jsval
  totalTokens :: jsexpr

record CompletionResponse =
  suggestions :: "CompletionSuggestion list"
  resp_model :: jsval
  usage :: "TokenUsage option"

section \<open>ClaudeClient.parseResponse\<close>

text \<open>\<^verbatim>\<open>text.split('\n').filter(line => line.trim())\<close>\<close>

definition nonempty_lines :: "string \<Rightarrow> string list" where
  "nonempty_lines t = filter (\<lambda>line. trim line \<noteq> []) (split_nl t)"

text \<open>
  The loop \<^verbatim>\<open>for (let i = 0; i < numSuggestions; i++) suggestions.push(...)\<close>. Reading
  \<^verbatim>\<open>lines[i]\<close> past the end would give \<^verbatim>\<open>undefined\<close>, whose \<^verbatim>\<open>trim\<close> throws; the
  loop is only run with \<open>numSuggestions \<le> length lines\<close>.
\<close>

function push_lines ::
  "nat \<Rightarrow> int \<Rightarrow> string list \<Rightarrow> CompletionSuggestion list \<Rightarrow> error + CompletionSuggestion list" where
  "push_lines i numSuggestions lines acc =
     (if int i < numSuggestions then
        (if i < length lines then
           push_lines (Suc i) numSuggestions lines
             (acc @ [\<lparr>sug_text = trim (lines ! i),
                      confidence = Some (9 / 10 - of_nat i * (1 / 10)),
                      sug_type = Some completion\<rparr>])
         else Inl (nullish_read ''undefined'' ''trim''))
      else Inr acc)"
  by pat_completeness auto
termination
  by (relation "measure (\<lambda>(i, n, ls, acc). nat (n - int i))") auto

declare push_lines.simps [simp del]

text \<open>The loop over \<^verbatim>\<open>data.content\<close>, left by \<^verbatim>\<open>break\<close> at the first text block that is not blank.\<close>

fun claude_scan :: "jsval list \<Rightarrow> int \<Rightarrow> error + CompletionSuggestion list" where
  "claude_scan [] maxSuggestions = Inr []"
| "claude_scan (content # rest) maxSuggestions =
     (case getProp content ''type'' of
        Inl e \<Rightarrow> Inl e
      | Inr ty \<Rightarrow>
          if ty \<noteq> JStr ''text'' then claude_scan rest maxSuggestions
          else (case getProp content ''text'' of
              Inl e \<Rightarrow> Inl e
            | Inr tx \<Rightarrow>
                if \<not> truthy tx then claude_scan rest maxSuggestions
                else (case js_trim tx ''content.text'' of
                    Inl e \<Rightarrow> Inl e
                  | Inr t \<Rightarrow>
                      if t = [] then claude_scan rest maxSuggestions
                      else push_lines 0 (min (int (length (nonempty_lines t))) maxSuggestions)
                             (nonempty_lines t) [])))"

text \<open>The fallback after the loop: the whole first block when nothing was pushed.\<close>

definition claude_fallback ::
  "jsval \<Rightarrow> CompletionSuggestion list \<Rightarrow> error + CompletionSuggestion list" where
  "claude_fallback content sugs =
     (if sugs = [] \<and> truthy content \<and> truthy (index0 content)
         \<and> truthy (lookup_prop (index0 content) ''text'') then
        (case js_trim (lookup_prop (index0 content) ''text'') ''data.content[0].text'' of
           Inl e \<Rightarrow> Inl e
         | Inr t \<Rightarrow>
             Inr (sugs @ [\<lparr>sug_text = t, confidence = Some (9 / 10), sug_type = Some completion\<rparr>]))
      else Inr sugs)"

definition claude_usage :: "jsval \<Rightarrow> TokenUsage option" where
  "claude_usage data =
     (if truthy (lookup_prop data ''usage'') then
        Some \<lparr>promptTokens = or_zero (lookup_prop (lookup_prop data ''usage'') ''input_tokens''),
              completionTokens = or_zero (lookup_prop (lookup_prop data ''usage'') ''output_tokens''),
              totalTokens = Plus (or_zero (lookup_prop (lookup_prop data ''usage'') ''input_tokens''))
                                 (or_zero (lookup_prop (lookup_prop data ''usage'') ''output_tokens''))\<rparr>
      else None)"

definition ClaudeClient_parseResponse :: "jsval \<Rightarrow> int \<Rightarrow> error + CompletionResponse" where
  "ClaudeClient_parseResponse data maxSuggestions =
     (case getProp data ''content'' of
        Inl e \<Rightarrow> Inl e
      | Inr content \<Rightarrow>
          (case (case content of JArr items \<Rightarrow> claude_scan items maxSuggestions | _ \<Rightarrow> Inr []) of
             Inl e \<Rightarrow> Inl e
           | Inr sugs \<Rightarrow>
               (case claude_fallback content sugs of
                  Inl e \<Rightarrow> Inl e
                | Inr sugs' \<Rightarrow>
                    Inr \<lparr>suggestions = sugs', resp_model = lookup_prop data ''model'',
                         usage = claude_usage data\<rparr>)))"

section \<open>OpenAIClient.parseResponse\<close>

text \<open>
  The loop over \<^verbatim>\<open>data.choices\<close> in \<^verbatim>\<open>src/src/ai-client.ts\<close>: every choice whose
  message content is not blank pushes one suggestion, which has no \<^verbatim>\<open>confidence\<close>.
\<close>

fun openai_scan :: "jsval list \<Rightarrow> CompletionSuggestion list \<Rightarrow> error + CompletionSuggestion list" where
  "openai_scan [] acc = Inr acc"
| "openai_scan (choice # rest) acc =
     (case getProp choice ''message'' of
        Inl e \<Rightarrow> Inl e
      | Inr msg \<Rightarrow>
          if \<not> truthy msg then openai_scan rest acc
          else (case getProp msg ''content'' of
              Inl e \<Rightarrow> Inl e
            | Inr c \<Rightarrow>
                if \<not> truthy c then openai_scan rest acc
                else (case js_trim c ''choice.message.content'' of
                    Inl e \<Rightarrow> Inl e
                  | Inr t \<Rightarrow>
                      if t = [] then openai_scan rest acc
                      else openai_scan rest
                             (acc @ [\<lparr>sug_text = t, confidence = None,
                                      sug_type = Some completion\<rparr>]))))"

definition openai_usage :: "jsval \<Rightarrow> TokenUsage option" where
  "openai_usage data =
     (if truthy (lookup_prop data ''usage'') then
        Some \<lparr>promptTokens = lookup_prop (lookup_prop data ''usage'') ''prompt_tokens'',
              completionTokens = lookup_prop (lookup_prop data ''usage'') ''completion_tokens'',
              totalTokens = Value (lookup_prop (lookup_prop data ''usage'') ''total_tokens'')\<rparr>
      else None)"

definition OpenAIClient_parseResponse :: "jsval \<Rightarrow> error + CompletionResponse" where
  "OpenAIClient_parseResponse data =
     (case getProp data ''choices'' of
        Inl e \<Rightarrow> Inl e
      | Inr choices \<Rightarrow>
          (case (case choices of JArr items \<Rightarrow> openai_scan items [] | _ \<Rightarrow> Inr []) of
             Inl e \<Rightarrow> Inl e
           | Inr sugs \<Rightarrow>
               Inr \<lparr>suggestions = sugs, resp_model = lookup_prop data ''model'',
                    usage = openai_usage data\<rparr>))"

subsection \<open>The built bundle, lib/index.js\<close>

text \<open>
  \<^verbatim>\<open>OpenAIClient.calculateConfidence\<close> exists only in \<^verbatim>\<open>src/lib/index.js\<close>, whose
  \<^verbatim>\<open>parseResponse\<close> gives each suggestion the confidence of its choice. The choice passed
  in has had \<^verbatim>\<open>choice.message\<close> read already, so it is neither \<^verbatim>\<open>null\<close> nor
  \<^verbatim>\<open>undefined\<close>.
\<close>

definition calculateConfidence :: "jsval \<Rightarrow> rat" where
  "calculateConfidence choice =
     (if lookup_prop choice ''finish_reason'' = JStr ''stop'' then 9 / 10
      else if lookup_prop choice ''finish_reason'' = JStr ''length'' then 7 / 10
      else 5 / 10)"

fun lib_openai_scan ::
  "jsval list \<Rightarrow> CompletionSuggestion list \<Rightarrow> error + CompletionSuggestion list" where
  "lib_openai_scan [] acc = Inr acc"
| "lib_openai_scan (choice # rest) acc =
     (case getProp choice ''message'' of
        Inl e \<Rightarrow> Inl e
      | Inr msg \<Rightarrow>
          if \<not> truthy msg then lib_openai_scan rest acc
          else (case getProp msg ''content'' of
              Inl e \<Rightarrow> Inl e
            | Inr c \<Rightarrow>
                if \<not> truthy c then lib_openai_scan rest acc
                else (case js_trim c ''choice.message.content'' of
                    Inl e \<Rightarrow> Inl e
                  | Inr t \<Rightarrow>
                      if t = [] then lib_openai_scan rest acc
                      else lib_openai_scan rest
                             (acc @ [\<lparr>sug_text = t, confidence = Some (calculateConfidence choice),
                                      sug_type = Some completion\<rparr>]))))"

definition lib_OpenAIClient_parseResponse :: "jsval \<Rightarrow> error + CompletionResponse" where
  "lib_OpenAIClient_parseResponse data =
     (case getProp data ''choices'' of
        Inl e \<Rightarrow> Inl e
      | Inr choices \<Rightarrow>
          (case (case choices of JArr items \<Rightarrow> lib_openai_scan items [] | _ \<Rightarrow> Inr []) of
             Inl e \<Rightarrow> Inl e
           | Inr sugs \<Rightarrow>
               Inr \<lparr>suggestions = sugs, resp_model = lookup_prop data ''model'',
                    usage = openai_usage data\<rparr>))"

section \<open>Requests and prompts\<close>

record CompletionRequest =
  prompt :: string
  context_opt :: "string option"
  language :: "string option"
  maxSuggestions :: "int option"

text \<open>\<^verbatim>\<open>if (request.language)\<close>: the field is present and not the empty string.\<close>

definition given :: "string option \<Rightarrow> bool" where
  "given v = (case v of None \<Rightarrow> False | Some s \<Rightarrow> s \<noteq> [])"

definition str :: "string option \<Rightarrow> string" where
  "str v = (case v of None \<Rightarrow> ''undefined'' | Some s \<Rightarrow> s)"

text \<open>\<^verbatim>\<open>BaseAIClient.buildPrompt\<close>: the parts, joined by a blank line.\<close>

definition BaseAIClient_buildPrompt :: "CompletionRequest \<Rightarrow> string" where
  "BaseAIClient_buildPrompt request =
     (let promptParts = [];
          promptParts = (if given (language request)
                         then promptParts @ [''Language: '' @ str (language request)]
                         else promptParts);
          promptParts = (if given (context_opt request)
                         then promptParts @ [''Context:'' @ LF @ str (context_opt request)]
                         else promptParts);
          promptParts = promptParts @ [''Complete the following code:'' @ LF @ prompt request]
      in join promptParts (LF @ LF))"

text \<open>
  \<^verbatim>\<open>ClaudeClient.buildPrompt\<close> and \<^verbatim>\<open>OpenAIClient.buildPrompt\<close> (the same text in both
  classes, and in \<^verbatim>\<open>lib/index.js\<close>): the language line ends with one line feed, the
  context block with two.
\<close>

definition ClaudeClient_buildPrompt :: "CompletionRequest \<Rightarrow> string" where
  "ClaudeClient_buildPrompt request =
     (let p = [];
          p = (if given (language request) then p @ ''Language: '' @ str (language request) @ LF else p);
          p = (if given (context_opt request)
               then p @ ''Context:'' @ LF @ str (context_opt request) @ LF @ LF else p);
          p = p @ ''Complete the following code:'' @ LF @ prompt request
      in p)"

definition OpenAIClient_buildPrompt :: "CompletionRequest \<Rightarrow> string" where
  "OpenAIClient_buildPrompt request =
     (let p = [];
          p = (if given (language request) then p @ ''Language: '' @ str (language request) @ LF else p);
          p = (if given (context_opt request)
               then p @ ''Context:'' @ LF @ str (context_opt request) @ LF @ LF else p);
          p = p @ ''Complete the following code:'' @ LF @ prompt request
      in p)"

text \<open>\<^verbatim>\<open>BaseAIClient.validateRequest\<close>\<close>

definition validateRequest :: "CompletionRequest \<Rightarrow> string option \<Rightarrow> error + unit" where
  "validateRequest request this_provider =
     (if prompt request = [] \<or> trim (prompt request) = [] then
        Inl (AIClientError ''Prompt is required and must be a non-empty string'' this_provider None None)
      else if (case maxSuggestions request of None \<Rightarrow> False | Some m \<Rightarrow> m \<le> 0) then
        Inl (AIClientError ''Max suggestions must be a positive number'' this_provider None None)
      else Inr ())"

section \<open>The network and getCompletions\<close>

text \<open>
  A request handed to \<^verbatim>\<open>fetch\<close>; its body is the object given to \<^verbatim>\<open>JSON.stringify\<close>.
  A response carries the status line and what \<^verbatim>\<open>response.json()\<close> gives (a value, or
  the error it rejects with). \<^verbatim>\<open>response.ok\<close> is, as the Fetch standard defines it,
  a status from 200 to 299.
\<close>

record wire_request =
  url :: string
  http_method :: string
  headers :: "(string \<times> string) list"
  body :: jsval

record wire_response =
  status :: nat
  statusText :: string
  json :: "error + jsval"

definition response_ok :: "wire_response \<Rightarrow> bool" where
  "response_ok response = (200 \<le> status response \<and> status response \<le> 299)"

text \<open>
  What a call leaves behind: the requests sent, how many response bodies were read and
  parsed, and the lines written by \<^verbatim>\<open>console.error\<close>.
\<close>

record world =
  sent :: "wire_request list"
  bodies_parsed :: nat
  console :: "(string \<times> error) list"

type_synonym network = "wire_request \<Rightarrow> error + wire_response"

definition SYSTEM_INSTRUCTION :: string where
  "SYSTEM_INSTRUCTION =
     ''You are a code completion assistant. Provide helpful code completions based on the context. Return only the completion text without explanations.''"

definition claude_request :: "RequiredConfig \<Rightarrow> string \<Rightarrow> wire_request" where
  "claude_request cfg p =
     \<lparr>url = the_baseURL cfg @ ''/v1/messages'',
      http_method = ''POST'',
      headers = [(''Content-Type'', ''application/json''),
                 (''x-api-key'', the_apiKey cfg),
                 (''anthropic-version'', ''2023-06-01'')],
      body = JObj [(''model'', JStr (the_model cfg)),
                   (''max_tokens'', JNum (of_int (the_maxTokens cfg))),
                   (''temperature'', JNum (the_temperature cfg)),
                   (''messages'', JArr [JObj [(''role'', JStr ''user''), (''content'', JStr p)]]),
                   (''system'', JStr SYSTEM_INSTRUCTION)]\<rparr>"

definition openai_request :: "RequiredConfig \<Rightarrow> string \<Rightarrow> CompletionRequest \<Rightarrow> wire_request" where
  "openai_request cfg p request =
     \<lparr>url = the_baseURL cfg @ ''/chat/completions'',
      http_method = ''POST'',
      headers = [(''Content-Type'', ''application/json''),
                 (''Authorization'', ''Bearer '' @ the_apiKey cfg)],
      body = JObj [(''model'', JStr (the_model cfg)),
                   (''messages'', JArr [JObj [(''role'', JStr ''system''),
                                              (''content'', JStr SYSTEM_INSTRUCTION)],
                                        JObj [(''role'', JStr ''user''), (''content'', JStr p)]]),
                   (''max_tokens'', JNum (of_int (the_maxTokens cfg))),
                   (''temperature'', JNum (the_temperature cfg)),
                   (''n'', JNum (of_int (or_int (maxSuggestions request) 3))),
                   (''stop'', JArr [JStr (LF @ LF), JStr ''```''])]\<rparr>"

text \<open>The \<^verbatim>\<open>catch\<close> block of both clients: log the error and throw it again.\<close>

definition rethrow :: "string \<Rightarrow> error \<Rightarrow> world \<Rightarrow> (error + CompletionResponse) \<times> world" where
  "rethrow label e w = (Inl e, w\<lparr>console := console w @ [(label, e)]\<rparr>)"

definition ClaudeClient_getCompletions ::
  "RequiredConfig \<Rightarrow> network \<Rightarrow> CompletionRequest \<Rightarrow> world \<Rightarrow> (error + CompletionResponse) \<times> world" where
  "ClaudeClient_getCompletions cfg fetch request w =
     (let p = ClaudeClient_buildPrompt request;
          w1 = w\<lparr>sent := sent w @ [claude_request cfg p]\<rparr>
      in case fetch (claude_request cfg p) of
           Inl e \<Rightarrow> rethrow ''Error getting Claude completions:'' e w1
         | Inr response \<Rightarrow>
             if \<not> response_ok response then
               rethrow ''Error getting Claude completions:''
                 (Error (''Claude API error: '' @ toString_nat (status response) @ '' ''
                           @ statusText response)) w1
             else
               (let w2 = w1\<lparr>bodies_parsed := bodies_parsed w1 + 1\<rparr>
                in case json response of
                     Inl e \<Rightarrow> rethrow ''Error getting Claude completions:'' e w2
                   | Inr data \<Rightarrow>
                       (case ClaudeClient_parseResponse data (or_int (maxSuggestions request) 3) of
                          Inl e \<Rightarrow> rethrow ''Error getting Claude completions:'' e w2
                        | Inr r \<Rightarrow> (Inr r, w2))))"

definition OpenAIClient_getCompletions ::
  "RequiredConfig \<Rightarrow> network \<Rightarrow> CompletionRequest \<Rightarrow> world \<Rightarrow> (error + CompletionResponse) \<times> world" where
  "OpenAIClient_getCompletions cfg fetch request w =
     (let p = OpenAIClient_buildPrompt request;
          w1 = w\<lparr>sent := sent w @ [openai_request cfg p request]\<rparr>
      in case fetch (openai_request cfg p request) of
           Inl e \<Rightarrow> rethrow ''Error getting AI completions:'' e w1
         | Inr response \<Rightarrow>
             if \<not> response_ok response then
               rethrow ''Error getting AI completions:''
                 (Error (''OpenAI API error: '' @ toString_nat (status response) @ '' ''
                           @ statusText response)) w1
             else
               (let w2 = w1\<lparr>bodies_parsed := bodies_parsed w1 + 1\<rparr>
                in case json response of
                     Inl e \<Rightarrow> rethrow ''Error getting AI completions:'' e w2
                   | Inr data \<Rightarrow>
                       (case OpenAIClient_parseResponse data of
                          Inl e \<Rightarrow> rethrow ''Error getting AI completions:'' e w2
                        | Inr r \<Rightarrow> (Inr r, w2))))"

subsection \<open>BaseAIClient.getCompletions\<close>

text \<open>\<^verbatim>\<open>BaseAIClient.handleError\<close>\<close>

fun handleError :: "string \<Rightarrow> error \<Rightarrow> error" where
  "handleError this_provider (AIClientError m p s c) = AIClientError m p s c"
| "handleError this_provider (TypeError m) =
     (if includes_str m ''fetch'' then
        AIClientError ''Network error: Unable to connect to AI service'' (Some this_provider) None
          (Some (TypeError m))
      else
        AIClientError (''Unexpected error: '' @ (if m = [] then ''Unknown error'' else m))
          (Some this_provider) None (Some (TypeError m)))"
| "handleError this_provider e =
     AIClientError (''Unexpected error: '' @ (if message e = [] then ''Unknown error'' else message e))
       (Some this_provider) None (Some e)"

text \<open>
  \<^verbatim>\<open>BaseAIClient.getCompletions\<close>: validate, build the prompt, call the API, parse; every
  error goes through \<^verbatim>\<open>handleError\<close>. \<^verbatim>\<open>callAPI\<close> and \<^verbatim>\<open>parseResponse\<close> are
  abstract and no class implements them, and the default \<^verbatim>\<open>AI_DEFAULTS.MAX_SUGGESTIONS\<close>
  is declared nowhere in the file: the three are parameters.
\<close>

definition BaseAIClient_getCompletions ::
  "BaseAIClient
   \<Rightarrow> (string \<Rightarrow> CompletionRequest \<Rightarrow> world \<Rightarrow> (error + jsval) \<times> world)
   \<Rightarrow> (jsval \<Rightarrow> int \<Rightarrow> error + CompletionResponse)
   \<Rightarrow> int
   \<Rightarrow> CompletionRequest \<Rightarrow> world \<Rightarrow> (error + CompletionResponse) \<times> world" where
  "BaseAIClient_getCompletions this callAPI parseResponse MAX_SUGGESTIONS request w =
     (case validateRequest request (Some (client_provider this)) of
        Inl e \<Rightarrow> (Inl (handleError (client_provider this) e), w)
      | Inr u \<Rightarrow>
          (let p = BaseAIClient_buildPrompt request
           in case callAPI p request w of
                (Inl e, w1) \<Rightarrow> (Inl (handleError (client_provider this) e), w1)
              | (Inr apiResponse, w1) \<Rightarrow>
                  (case parseResponse apiResponse (or_int (maxSuggestions request) MAX_SUGGESTIONS) of
                     Inl e \<Rightarrow> (Inl (handleError (client_provider this) e), w1)
                   | Inr r \<Rightarrow> (Inr r, w1))))"

section \<open>Sample inputs\<close>

definition sample_config :: RequiredConfig where
  "sample_config =
     \<lparr>the_apiKey = ''sk-0123456789'', the_baseURL = ''https://api.example.com'',
      the_model = ''m1'', the_maxTokens = 100, the_temperature = 3 / 10\<rparr>"

definition idle :: world where
  "idle = \<lparr>sent = [], bodies_parsed = 0, console = []\<rparr>"

definition unauthorized :: wire_response where
  "unauthorized = \<lparr>status = 401, statusText = ''Unauthorized'', json = Inr JNull\<rparr>"

definition claude_body :: "string \<Rightarrow> jsval" where
  "claude_body t = JObj [(''content'', JArr [JObj [(''type'', JStr ''text''), (''text'', JStr t)]])]"

definition ok_response :: "jsval \<Rightarrow> wire_response" where
  "ok_response data = \<lparr>status = 200, statusText = ''OK'', json = Inr data\<rparr>"

section \<open>Reading an OpenAI body\<close>

text \<open>
  The vocabulary for statements about \<^verbatim>\<open>OpenAIClient.parseResponse\<close>: the entries of
  \<^verbatim>\<open>data.choices\<close> (none unless it is an array), the value of
  \<^verbatim>\<open>choice.message.content\<close> (\<^verbatim>\<open>undefined\<close> where a step is missing), the choices
  whose content is a string that is not blank and the trimmed text of that content, and
  the bodies on which the parser cannot
  throw: the body and its choices are neither \<^verbatim>\<open>null\<close> nor \<^verbatim>\<open>undefined\<close> and every
  content is a string or falsy.
\<close>

definition choices_of :: "jsval \<Rightarrow> jsval list" where
  "choices_of data = (case lookup_prop data ''choices'' of JArr items \<Rightarrow> items | _ \<Rightarrow> [])"

definition message_content :: "jsval \<Rightarrow> jsval" where
  "message_content choice = lookup_prop (lookup_prop choice ''message'') ''content''"

definition has_content :: "jsval \<Rightarrow> bool" where
  "has_content choice = (case message_content choice of JStr s \<Rightarrow> trim s \<noteq> [] | _ \<Rightarrow> False)"

definition content_text :: "jsval \<Rightarrow> string" where
  "content_text choice = (case message_content choice of JStr s \<Rightarrow> trim s | _ \<Rightarrow> [])"

definition well_formed_choice :: "jsval \<Rightarrow> bool" where
  "well_formed_choice choice =
     (choice \<noteq> JUndefined \<and> choice \<noteq> JNull
      \<and> (case message_content choice of JStr s \<Rightarrow> True | v \<Rightarrow> \<not> truthy v))"

definition well_formed_body :: "jsval \<Rightarrow> bool" where
  "well_formed_body data =
     (data \<noteq> JUndefined \<and> data \<noteq> JNull \<and> list_all well_formed_choice (choices_of data))"

definition three_choices :: jsval where
  "three_choices =
     JObj [(''choices'', JArr [
        JObj [(''message'', JObj [(''content'', JStr ''foo'')]), (''finish_reason'', JStr ''stop'')],
        JObj [(''message'', JObj [(''content'', JStr ''  '')]), (''finish_reason'', JStr ''stop'')],
        JObj [(''message'', JObj [(''content'', JStr ''bar'')]), (''finish_reason'', JStr ''length'')]])]"

definition nbsp_choices :: jsval where
  "nbsp_choices =
     JObj [(''choices'', JArr [
        JObj [(''message'', JObj [(''content'', JStr [CHR 0xA0])])],
        JObj [(''message'', JObj [(''content'', JStr (''ok'' @ [CHR 0xA0]))])]])]"

definition foo_stop :: jsval where
  "foo_stop =
     JObj [(''choices'', JArr [
        JObj [(''message'', JObj [(''content'', JStr ''foo'')]), (''finish_reason'', JStr ''stop'')]])]"

definition eleven_lines :: string where
  "eleven_lines =
     ''a'' @ LF @ ''b'' @ LF @ ''c'' @ LF @ ''d'' @ LF @ ''e'' @ LF @ ''f'' @ LF @ ''g'' @ LF
     @ ''h'' @ LF @ ''i'' @ LF @ ''j'' @ LF @ ''k''"

section \<open>Construction: properties\<close>

lemma trim_Nil: "trim [] = []"
  by (simp add: trim_def)

lemma validateConfig_blank_apiKey:
  "trim (apiKey c) = [] \<Longrightarrow>
   validateConfig c p =
     Inl (AIClientError ''API key is required and must be a non-empty string'' p None None)"
  by (simp add: validateConfig_def)

lemma validateConfig_accepts:
  "trim (apiKey c) \<noteq> [] \<Longrightarrow>
   (case temperature c of None \<Rightarrow> True | Some t \<Rightarrow> 0 \<le> t \<and> t \<le> 1) \<Longrightarrow>
   (case maxTokens c of None \<Rightarrow> True | Some m \<Rightarrow> 0 < m) \<Longrightarrow>
   validateConfig c p = Inr ()"
  by (auto simp: validateConfig_def trim_Nil split: option.splits)

lemma BaseAIClient_constructor_blank_apiKey:
  "trim (apiKey c) = [] \<Longrightarrow>
   BaseAIClient_constructor nc c prov =
     Inl (AIClientError ''API key is required and must be a non-empty string'' None None None)"
  by (simp add: BaseAIClient_constructor_def validateConfig_blank_apiKey)

lemma ClaudeClient_constructor_never_fails: "ClaudeClient_constructor c \<noteq> Inl e"
  by (simp add: ClaudeClient_constructor_def)

lemma OpenAIClient_constructor_never_fails: "OpenAIClient_constructor c \<noteq> Inl e"
  by (simp add: OpenAIClient_constructor_def)

text \<open>
  Claim C1. A configuration whose \<^verbatim>\<open>apiKey\<close> is empty or only white space must be
  refused at construction. \<^verbatim>\<open>BaseAIClient.validateConfig\<close> refuses it, but the clients
  that \<^verbatim>\<open>createAIClient\<close> builds never call it: with the empty key the OpenAI client is
  constructed, with a key of two spaces the Claude client is.
\<close>

theorem C1_blank_apiKey_constructs_client:
  "createAIClient \<lparr>provider = ''openai'',
       config = \<lparr>apiKey = '''', baseURL = None, model = None, maxTokens = None, temperature = None\<rparr>\<rparr>
     = Inr (OpenAIClient \<lparr>the_apiKey = '''', the_baseURL = ''https://api.openai.com/v1'',
         the_model = ''gpt-3.5-turbo'', the_maxTokens = 100, the_temperature = 3 / 10\<rparr>)
   \<and> createAIClient \<lparr>provider = ''claude'',
       config = \<lparr>apiKey = ''  '', baseURL = None, model = None, maxTokens = None, temperature = None\<rparr>\<rparr>
     = Inr (ClaudeClient \<lparr>the_apiKey = ''  '', the_baseURL = ''https://api.anthropic.com'',
         the_model = ''claude-3-haiku-20240307'', the_maxTokens = 100, the_temperature = 3 / 10\<rparr>)
   \<and> validateConfig
       \<lparr>apiKey = ''  '', baseURL = None, model = None, maxTokens = None, temperature = None\<rparr> None
     = Inl (AIClientError ''API key is required and must be a non-empty string'' None None None)"
  by (simp add: createAIClient_def OpenAIClient_constructor_def ClaudeClient_constructor_def
      or_string_def or_int_def or_rat_def validateConfig_def trim_def isWhiteSpace_def)

text \<open>
  Claim C2, as stated: an unrecognised provider tag such as \<^verbatim>\<open>"bard"\<close> makes
  \<^verbatim>\<open>createAIClient\<close> fail. It does not: the tag takes the \<^verbatim>\<open>else\<close> branch and an
  OpenAI client is constructed.
\<close>

theorem C2_bard_counterexample:
  "createAIClient \<lparr>provider = ''bard'',
       config = \<lparr>apiKey = ''sk-0123456789'', baseURL = None, model = None, maxTokens = None,
                 temperature = None\<rparr>\<rparr>
     = Inr (OpenAIClient \<lparr>the_apiKey = ''sk-0123456789'', the_baseURL = ''https://api.openai.com/v1'',
         the_model = ''gpt-3.5-turbo'', the_maxTokens = 100, the_temperature = 3 / 10\<rparr>)"
  by (simp add: createAIClient_def OpenAIClient_constructor_def or_string_def or_int_def or_rat_def)

text \<open>
  Claim C2, amended: \<^verbatim>\<open>createAIClient\<close> never fails. The tag \<^verbatim>\<open>'claude'\<close> gives a
  Claude client, every other tag (recognised or not) an OpenAI client, each holding the
  configuration its constructor normalised.
\<close>

theorem C2_createAIClient_falls_back_to_openai:
  "(\<exists>c. createAIClient pc = Inr c)
   \<and> (provider pc = ''claude'' \<longrightarrow>
        (\<exists>r. ClaudeClient_constructor (config pc) = Inr r \<and> createAIClient pc = Inr (ClaudeClient r)))
   \<and> (provider pc \<noteq> ''claude'' \<longrightarrow>
        (\<exists>r. OpenAIClient_constructor (config pc) = Inr r \<and> createAIClient pc = Inr (OpenAIClient r)))"
  by (simp add: createAIClient_def OpenAIClient_constructor_def ClaudeClient_constructor_def)

theorem C2_createAIClient_falls_back_witness:
  "provider \<lparr>provider = ''gemini'', config = \<lparr>apiKey = ''k'',
       baseURL = Some ''http://localhost:11434/v1'', model = None, maxTokens = Some 64,
       temperature = Some (1 / 2)\<rparr>\<rparr> \<noteq> ''claude''
   \<and> createAIClient \<lparr>provider = ''gemini'', config = \<lparr>apiKey = ''k'',
       baseURL = Some ''http://localhost:11434/v1'', model = None, maxTokens = Some 64,
       temperature = Some (1 / 2)\<rparr>\<rparr>
     = Inr (OpenAIClient \<lparr>the_apiKey = ''k'', the_baseURL = ''http://localhost:11434/v1'',
         the_model = ''gpt-3.5-turbo'', the_maxTokens = 64, the_temperature = 1 / 2\<rparr>)
   \<and> createAIClient \<lparr>provider = ''claude'', config = \<lparr>apiKey = ''k'',
       baseURL = None, model = Some ''claude-3-opus'', maxTokens = None, temperature = None\<rparr>\<rparr>
     = Inr (ClaudeClient \<lparr>the_apiKey = ''k'', the_baseURL = ''https://api.anthropic.com'',
         the_model = ''claude-3-opus'', the_maxTokens = 100, the_temperature = 3 / 10\<rparr>)"
  using C2_createAIClient_falls_back_to_openai
      [of "\<lparr>provider = ''gemini'', config = \<lparr>apiKey = ''k'',
         baseURL = Some ''http://localhost:11434/v1'', model = None, maxTokens = Some 64,
         temperature = Some (1 / 2)\<rparr>\<rparr>"]
    C2_createAIClient_falls_back_to_openai
      [of "\<lparr>provider = ''claude'', config = \<lparr>apiKey = ''k'',
         baseURL = None, model = Some ''claude-3-opus'', maxTokens = None, temperature = None\<rparr>\<rparr>"]
  by (simp add: OpenAIClient_constructor_def ClaudeClient_constructor_def
      or_string_def or_int_def or_rat_def)

text \<open>
  Claim C5. A temperature inside \<open>[0,1]\<close>, 0 included, must be kept unchanged, and one
  outside must be refused. \<^verbatim>\<open>validateConfig\<close> accepts the temperature 0, but both
  constructors write \<^verbatim>\<open>config.temperature || 0.3\<close>, which replaces 0 by 0.3; and since
  they never validate, the temperature 5 is accepted and kept.
\<close>

theorem C5_temperature_zero_becomes_default:
  "OpenAIClient_constructor
       \<lparr>apiKey = ''sk-0123456789'', baseURL = None, model = None, maxTokens = None, temperature = Some 0\<rparr>
     = Inr \<lparr>the_apiKey = ''sk-0123456789'', the_baseURL = ''https://api.openai.com/v1'',
         the_model = ''gpt-3.5-turbo'', the_maxTokens = 100, the_temperature = 3 / 10\<rparr>
   \<and> ClaudeClient_constructor
       \<lparr>apiKey = ''sk-0123456789'', baseURL = None, model = None, maxTokens = None, temperature = Some 0\<rparr>
     = Inr \<lparr>the_apiKey = ''sk-0123456789'', the_baseURL = ''https://api.anthropic.com'',
         the_model = ''claude-3-haiku-20240307'', the_maxTokens = 100, the_temperature = 3 / 10\<rparr>
   \<and> validateConfig
       \<lparr>apiKey = ''sk-0123456789'', baseURL = None, model = None, maxTokens = None, temperature = Some 0\<rparr>
       None = Inr ()
   \<and> OpenAIClient_constructor
       \<lparr>apiKey = ''sk-0123456789'', baseURL = None, model = None, maxTokens = None, temperature = Some 5\<rparr>
     = Inr \<lparr>the_apiKey = ''sk-0123456789'', the_baseURL = ''https://api.openai.com/v1'',
         the_model = ''gpt-3.5-turbo'', the_maxTokens = 100, the_temperature = 5\<rparr>"
  by (simp add: OpenAIClient_constructor_def ClaudeClient_constructor_def
      or_string_def or_int_def or_rat_def validateConfig_def trim_def isWhiteSpace_def)

text \<open>
  The exported constructors keep every supplied temperature other than 0 as it is, inside
  \<open>[0,1]\<close> or not, and fill in 0.3 when none is supplied.
\<close>

theorem constructors_keep_nonzero_temperature:
  "(temperature c = Some t \<and> t \<noteq> 0 \<longrightarrow>
      (\<exists>r. OpenAIClient_constructor c = Inr r \<and> the_temperature r = t)
      \<and> (\<exists>r. ClaudeClient_constructor c = Inr r \<and> the_temperature r = t))
   \<and> (temperature c = None \<longrightarrow>
      (\<exists>r. OpenAIClient_constructor c = Inr r \<and> the_temperature r = 3 / 10)
      \<and> (\<exists>r. ClaudeClient_constructor c = Inr r \<and> the_temperature r = 3 / 10))"
  by (simp add: OpenAIClient_constructor_def ClaudeClient_constructor_def or_rat_def)

theorem constructors_keep_nonzero_temperature_witness:
  "(7 / 10 :: rat) \<noteq> 0
   \<and> OpenAIClient_constructor
       \<lparr>apiKey = ''sk-0123456789'', baseURL = None, model = None, maxTokens = None,
        temperature = Some (7 / 10)\<rparr>
     = Inr \<lparr>the_apiKey = ''sk-0123456789'', the_baseURL = ''https://api.openai.com/v1'',
         the_model = ''gpt-3.5-turbo'', the_maxTokens = 100, the_temperature = 7 / 10\<rparr>
   \<and> ClaudeClient_constructor
       \<lparr>apiKey = ''sk-0123456789'', baseURL = None, model = None, maxTokens = None,
        temperature = None\<rparr>
     = Inr \<lparr>the_apiKey = ''sk-0123456789'', the_baseURL = ''https://api.anthropic.com'',
         the_model = ''claude-3-haiku-20240307'', the_maxTokens = 100, the_temperature = 3 / 10\<rparr>"
  using constructors_keep_nonzero_temperature
      [of "\<lparr>apiKey = ''sk-0123456789'', baseURL = None, model = None, maxTokens = None,
            temperature = Some (7 / 10)\<rparr>" "7 / 10"]
    constructors_keep_nonzero_temperature
      [of "\<lparr>apiKey = ''sk-0123456789'', baseURL = None, model = None, maxTokens = None,
            temperature = None\<rparr>" 0]
  by (simp add: OpenAIClient_constructor_def ClaudeClient_constructor_def
      or_string_def or_int_def or_rat_def)

text \<open>
  \<^verbatim>\<open>BaseAIClient.validateConfig\<close> on the temperature: with a key that is not blank, a
  supplied temperature below 0 or above 1 is refused with "Temperature must be between
  0.0 and 1.0", and one inside \<open>[0,1]\<close>, 0 and 1 included, passes this check (the result
  is then decided by \<^verbatim>\<open>maxTokens\<close> alone).
\<close>

theorem validateConfig_temperature:
  "(trim (apiKey c) \<noteq> [] \<and> temperature c = Some t \<and> (t < 0 \<or> 1 < t) \<longrightarrow>
      validateConfig c p =
        Inl (AIClientError ''Temperature must be between 0.0 and 1.0'' p None None))
   \<and> (trim (apiKey c) \<noteq> [] \<and> temperature c = Some t \<and> 0 \<le> t \<and> t \<le> 1
        \<and> (case maxTokens c of None \<Rightarrow> True | Some m \<Rightarrow> 0 < m) \<longrightarrow>
      validateConfig c p = Inr ())"
  by (auto simp: validateConfig_def trim_Nil split: option.splits)

theorem validateConfig_temperature_witness:
  "trim ''sk-0123456789'' \<noteq> []
   \<and> validateConfig
       \<lparr>apiKey = ''sk-0123456789'', baseURL = None, model = None, maxTokens = None,
        temperature = Some (3 / 2)\<rparr> None
     = Inl (AIClientError ''Temperature must be between 0.0 and 1.0'' None None None)
   \<and> validateConfig
       \<lparr>apiKey = ''sk-0123456789'', baseURL = None, model = None, maxTokens = None,
        temperature = Some 0\<rparr> None
     = Inr ()"
  using validateConfig_temperature
      [of "\<lparr>apiKey = ''sk-0123456789'', baseURL = None, model = None, maxTokens = None,
            temperature = Some (3 / 2)\<rparr>" "3 / 2" None]
    validateConfig_temperature
      [of "\<lparr>apiKey = ''sk-0123456789'', baseURL = None, model = None, maxTokens = None,
            temperature = Some 0\<rparr>" 0 None]
  by (simp add: trim_def isWhiteSpace_def)

section \<open>Prompts: properties\<close>

text \<open>
  Claim C6. The built prompt must be the sections \<^verbatim>\<open>Language: <language>\<close>,
  \<^verbatim>\<open>Context:\n<context>\<close> and \<^verbatim>\<open>Complete the following code:\n<prompt>\<close>, in this
  order, joined by blank lines. \<^verbatim>\<open>BaseAIClient.buildPrompt\<close> builds exactly that, but
  \<^verbatim>\<open>ClaudeClient.buildPrompt\<close> and \<^verbatim>\<open>OpenAIClient.buildPrompt\<close> end the language line
  with a single line feed (next to the blank line they put after the context block): for
  the language \<^verbatim>\<open>python\<close> and the prompt \<^verbatim>\<open>x = \<close> they return
  \<^verbatim>\<open>Language: python\nComplete the following code:\nx = \<close>, which is not the
  blank-line join of the two sections that \<^verbatim>\<open>BaseAIClient.buildPrompt\<close> returns.
\<close>

theorem C6_exported_buildPrompt_single_line_feed:
  "ClaudeClient_buildPrompt
       \<lparr>prompt = ''x = '', context_opt = None, language = Some ''python'', maxSuggestions = None\<rparr>
     = ''Language: python'' @ LF @ ''Complete the following code:'' @ LF @ ''x = ''
   \<and> OpenAIClient_buildPrompt
       \<lparr>prompt = ''x = '', context_opt = None, language = Some ''python'', maxSuggestions = None\<rparr>
     = ''Language: python'' @ LF @ ''Complete the following code:'' @ LF @ ''x = ''
   \<and> ClaudeClient_buildPrompt
       \<lparr>prompt = ''x = '', context_opt = None, language = Some ''python'', maxSuggestions = None\<rparr>
     \<noteq> join [''Language: python'', ''Complete the following code:'' @ LF @ ''x = ''] (LF @ LF)
   \<and> BaseAIClient_buildPrompt
       \<lparr>prompt = ''x = '', context_opt = None, language = Some ''python'', maxSuggestions = None\<rparr>
     = join [''Language: python'', ''Complete the following code:'' @ LF @ ''x = ''] (LF @ LF)"
  by (simp add: ClaudeClient_buildPrompt_def OpenAIClient_buildPrompt_def
      BaseAIClient_buildPrompt_def Let_def given_def str_def LF_def)

text \<open>
  \<^verbatim>\<open>BaseAIClient.buildPrompt\<close> does what claim C6 says, for every request: the line
  \<^verbatim>\<open>Language: <language>\<close> when a non-empty language is given, the block
  \<^verbatim>\<open>Context:\n<context>\<close> when a non-empty context is given, then
  \<^verbatim>\<open>Complete the following code:\n<prompt>\<close>, each section but the last followed by a
  blank line. Without a context there is no \<^verbatim>\<open>Context:\<close> block, and the result is a
  function of the request alone.
\<close>

theorem BaseAIClient_buildPrompt_sections:
  "BaseAIClient_buildPrompt r =
     (if given (language r) then ''Language: '' @ str (language r) @ LF @ LF else [])
     @ (if given (context_opt r) then ''Context:'' @ LF @ str (context_opt r) @ LF @ LF else [])
     @ ''Complete the following code:'' @ LF @ prompt r"
  by (simp add: BaseAIClient_buildPrompt_def Let_def)

theorem BaseAIClient_buildPrompt_sections_witness:
  "BaseAIClient_buildPrompt
       \<lparr>prompt = ''x = '', context_opt = Some ''import os'', language = Some ''python'',
        maxSuggestions = None\<rparr>
     = ''Language: python'' @ LF @ LF @ ''Context:'' @ LF @ ''import os'' @ LF @ LF
       @ ''Complete the following code:'' @ LF @ ''x = ''
   \<and> BaseAIClient_buildPrompt
       \<lparr>prompt = ''x = '', context_opt = None, language = None, maxSuggestions = None\<rparr>
     = ''Complete the following code:'' @ LF @ ''x = ''"
  using BaseAIClient_buildPrompt_sections
    [of "\<lparr>prompt = ''x = '', context_opt = Some ''import os'', language = Some ''python'',
          maxSuggestions = None\<rparr>"]
    BaseAIClient_buildPrompt_sections
    [of "\<lparr>prompt = ''x = '', context_opt = None, language = None, maxSuggestions = None\<rparr>"]
  by (simp add: given_def str_def)

section \<open>getCompletions: properties\<close>

text \<open>
  Every call of the exported clients sends exactly one request, whatever the request
  holds and whatever the network answers.
\<close>

theorem getCompletions_sends_one_request:
  "sent (snd (ClaudeClient_getCompletions cfg fetch request w)) =
     sent w @ [claude_request cfg (ClaudeClient_buildPrompt request)]
   \<and> sent (snd (OpenAIClient_getCompletions cfg fetch request w)) =
     sent w @ [openai_request cfg (OpenAIClient_buildPrompt request) request]"
  by (simp add: ClaudeClient_getCompletions_def OpenAIClient_getCompletions_def Let_def rethrow_def
      split: sum.splits)

lemma validateRequest_blank_prompt:
  "trim (prompt request) = [] \<Longrightarrow>
   validateRequest request p =
     Inl (AIClientError ''Prompt is required and must be a non-empty string'' p None None)"
  by (simp add: validateRequest_def)

lemma validateRequest_maxSuggestions:
  "trim (prompt request) \<noteq> [] \<Longrightarrow> maxSuggestions request = Some m \<Longrightarrow> m \<le> 0 \<Longrightarrow>
   validateRequest request p =
     Inl (AIClientError ''Max suggestions must be a positive number'' p None None)"
  by (auto simp: validateRequest_def trim_Nil)

lemma validateRequest_error: "validateRequest request p = Inl e \<Longrightarrow> is_AIClientError e"
  by (auto simp: validateRequest_def split: if_splits)

lemma handleError_AIClientError: "is_AIClientError e \<Longrightarrow> handleError prov e = e"
  by (cases e) simp_all

lemma BaseAIClient_getCompletions_invalid:
  "validateRequest request (Some (client_provider this)) = Inl e \<Longrightarrow>
   BaseAIClient_getCompletions this callAPI parseResponse d request w = (Inl e, w)"
  by (simp add: BaseAIClient_getCompletions_def handleError_AIClientError validateRequest_error)

lemma handleError_statusCode: "\<not> is_AIClientError e \<Longrightarrow> statusCode (handleError prov e) = None"
  by (cases e) simp_all

text \<open>
  Claim C3, as stated: on a non-2xx status the call fails with an \<^verbatim>\<open>AIClientError\<close>
  whose \<^verbatim>\<open>statusCode\<close> is that status. On the status 401 both clients throw a plain
  \<^verbatim>\<open>Error\<close>; the number 401 is part of its message only.
\<close>

theorem C3_statusCode_counterexample:
  "fst (OpenAIClient_getCompletions sample_config (\<lambda>q. Inr unauthorized)
         \<lparr>prompt = ''x = '', context_opt = None, language = None, maxSuggestions = None\<rparr> idle)
     = Inl (Error ''OpenAI API error: 401 Unauthorized'')
   \<and> fst (ClaudeClient_getCompletions sample_config (\<lambda>q. Inr unauthorized)
         \<lparr>prompt = ''x = '', context_opt = None, language = None, maxSuggestions = None\<rparr> idle)
     = Inl (Error ''Claude API error: 401 Unauthorized'')
   \<and> statusCode (Error ''OpenAI API error: 401 Unauthorized'') \<noteq> Some 401
   \<and> statusCode (Error ''Claude API error: 401 Unauthorized'') \<noteq> Some 401"
  by (simp add: OpenAIClient_getCompletions_def ClaudeClient_getCompletions_def Let_def rethrow_def
      unauthorized_def response_ok_def toString_nat.simps digit_def)

text \<open>
  Claim C3, amended. For every response whose status is not in 200..299, getCompletions
  of either client fails with an error whose message is
  \<^verbatim>\<open><OpenAI|Claude> API error: <status> <statusText>\<close>. The status code is carried in
  the message only: the error has no \<^verbatim>\<open>statusCode\<close>. Exactly one request was sent and
  no response body was read or parsed.
\<close>

theorem C3_non_2xx_status_only_in_message:
  "(fetch (openai_request cfg (OpenAIClient_buildPrompt request) request) = Inr response
      \<and> \<not> response_ok response \<longrightarrow>
      (\<exists>e w'. OpenAIClient_getCompletions cfg fetch request w = (Inl e, w')
         \<and> message e = ''OpenAI API error: '' @ toString_nat (status response) @ '' ''
                          @ statusText response
         \<and> statusCode e = None
         \<and> sent w' = sent w @ [openai_request cfg (OpenAIClient_buildPrompt request) request]
         \<and> bodies_parsed w' = bodies_parsed w))
   \<and> (fetch (claude_request cfg (ClaudeClient_buildPrompt request)) = Inr response
      \<and> \<not> response_ok response \<longrightarrow>
      (\<exists>e w'. ClaudeClient_getCompletions cfg fetch request w = (Inl e, w')
         \<and> message e = ''Claude API error: '' @ toString_nat (status response) @ '' ''
                          @ statusText response
         \<and> statusCode e = None
         \<and> sent w' = sent w @ [claude_request cfg (ClaudeClient_buildPrompt request)]
         \<and> bodies_parsed w' = bodies_parsed w))"
  by (simp add: OpenAIClient_getCompletions_def ClaudeClient_getCompletions_def Let_def rethrow_def)

theorem C3_non_2xx_status_only_in_message_witness:
  "\<not> response_ok unauthorized
   \<and> (\<exists>e w'. OpenAIClient_getCompletions sample_config (\<lambda>q. Inr unauthorized)
          \<lparr>prompt = ''x = '', context_opt = None, language = None, maxSuggestions = None\<rparr> idle
            = (Inl e, w')
        \<and> message e = ''OpenAI API error: 401 Unauthorized'' \<and> statusCode e = None
        \<and> length (sent w') = 1 \<and> bodies_parsed w' = 0)
   \<and> (\<exists>e w'. ClaudeClient_getCompletions sample_config (\<lambda>q. Inr unauthorized)
          \<lparr>prompt = ''x = '', context_opt = None, language = None, maxSuggestions = None\<rparr> idle
            = (Inl e, w')
        \<and> message e = ''Claude API error: 401 Unauthorized'' \<and> statusCode e = None
        \<and> length (sent w') = 1 \<and> bodies_parsed w' = 0)"
  using C3_non_2xx_status_only_in_message
    [of "\<lambda>q. Inr unauthorized" sample_config
        "\<lparr>prompt = ''x = '', context_opt = None, language = None, maxSuggestions = None\<rparr>"
        unauthorized idle]
  by (auto simp: response_ok_def unauthorized_def idle_def toString_nat.simps digit_def)

text \<open>
  Claim C4. A request whose prompt is blank, or whose \<^verbatim>\<open>maxSuggestions\<close> is not positive,
  must fail validation before anything is sent. \<^verbatim>\<open>BaseAIClient.getCompletions\<close> does
  so and leaves the world unchanged, but the exported
  clients never call \<^verbatim>\<open>validateRequest\<close>: with a prompt of three spaces and
  \<^verbatim>\<open>maxSuggestions: 0\<close> the Claude client sends its request and returns the parsed
  answer, and with \<^verbatim>\<open>maxSuggestions: -2\<close> the OpenAI client sends \<^verbatim>\<open>n: -2\<close>.
\<close>

theorem C4_invalid_request_is_sent:
  "ClaudeClient_getCompletions sample_config (\<lambda>q. Inr (ok_response (claude_body ''pass'')))
       \<lparr>prompt = ''   '', context_opt = None, language = None, maxSuggestions = Some 0\<rparr> idle
     = (Inr \<lparr>suggestions = [\<lparr>sug_text = ''pass'', confidence = Some (9 / 10),
                               sug_type = Some completion\<rparr>],
             resp_model = JUndefined, usage = None\<rparr>,
        \<lparr>sent = [claude_request sample_config (''Complete the following code:'' @ LF @ ''   '')],
         bodies_parsed = 1, console = []\<rparr>)
   \<and> validateRequest
       \<lparr>prompt = ''   '', context_opt = None, language = None, maxSuggestions = Some 0\<rparr>
       (Some ''claude'')
     = Inl (AIClientError ''Prompt is required and must be a non-empty string'' (Some ''claude'')
             None None)
   \<and> sent (snd (OpenAIClient_getCompletions sample_config (\<lambda>q. Inl (TypeError ''fetch failed''))
         \<lparr>prompt = ''x = '', context_opt = None, language = None, maxSuggestions = Some (- 2)\<rparr>
         idle))
     = [openai_request sample_config (''Complete the following code:'' @ LF @ ''x = '')
          \<lparr>prompt = ''x = '', context_opt = None, language = None, maxSuggestions = Some (- 2)\<rparr>]
   \<and> lookup_prop (body (openai_request sample_config (''Complete the following code:'' @ LF @ ''x = '')
          \<lparr>prompt = ''x = '', context_opt = None, language = None, maxSuggestions = Some (- 2)\<rparr>))
          ''n'' = JNum (- 2)
   \<and> validateRequest
       \<lparr>prompt = ''x = '', context_opt = None, language = None, maxSuggestions = Some (- 2)\<rparr>
       (Some ''openai'')
     = Inl (AIClientError ''Max suggestions must be a positive number'' (Some ''openai'') None None)"
  by (simp add: ClaudeClient_getCompletions_def OpenAIClient_getCompletions_def Let_def rethrow_def
      ok_response_def claude_body_def idle_def response_ok_def
      ClaudeClient_buildPrompt_def OpenAIClient_buildPrompt_def given_def
      ClaudeClient_parseResponse_def nonempty_lines_def trim_def isWhiteSpace_def
      push_lines.simps claude_fallback_def claude_usage_def or_int_def
      validateRequest_def openai_request_def)

section \<open>Parsing: properties\<close>

lemma trim_eq_Nil_iff: "trim s = [] \<longleftrightarrow> (\<forall>c\<in>set s. isWhiteSpace c)"
proof
  assume "trim s = []"
  then have all: "\<forall>c\<in>set (dropWhile isWhiteSpace s). isWhiteSpace c"
    by (auto simp: trim_def dropWhile_eq_Nil_conv)
  show "\<forall>c\<in>set s. isWhiteSpace c"
  proof (cases "dropWhile isWhiteSpace s")
    case Nil
    then show ?thesis by (simp add: dropWhile_eq_Nil_conv)
  next
    case (Cons a as)
    then have "\<not> isWhiteSpace (hd (dropWhile isWhiteSpace s))"
      using hd_dropWhile [of isWhiteSpace s] by simp
    moreover have "hd (dropWhile isWhiteSpace s) \<in> set (dropWhile isWhiteSpace s)"
      using Cons by simp
    ultimately show ?thesis using all by blast
  qed
next
  assume "\<forall>c\<in>set s. isWhiteSpace c"
  then show "trim s = []"
    by (auto simp: trim_def dest: set_dropWhileD)
qed

lemma trim_idem_nonblank: "trim s \<noteq> [] \<Longrightarrow> \<exists>c\<in>set (trim s). \<not> isWhiteSpace c"
proof -
  assume ne: "trim s \<noteq> []"
  have "trim s = rev (dropWhile isWhiteSpace (rev (dropWhile isWhiteSpace s)))"
    by (simp add: trim_def)
  let ?d = "dropWhile isWhiteSpace (rev (dropWhile isWhiteSpace s))"
  from ne have "?d \<noteq> []" by (simp add: trim_def)
  then have "\<not> isWhiteSpace (hd ?d)" using hd_dropWhile [of isWhiteSpace] by blast
  moreover have "hd ?d \<in> set ?d" using \<open>?d \<noteq> []\<close> by simp
  ultimately show ?thesis by (auto simp: trim_def)
qed

lemma split_nl_not_Nil: "split_nl t \<noteq> []"
  by (induction t) (auto split: list.splits)

lemma split_nl_covers:
  "c \<in> set t \<Longrightarrow> c \<noteq> CHR 0x0A \<Longrightarrow> \<exists>l\<in>set (split_nl t). c \<in> set l"
proof (induction t)
  case Nil
  then show ?case by simp
next
  case (Cons a t)
  then show ?case
    by (cases "split_nl t") (auto simp: split_nl_not_Nil)
qed

lemma nonempty_lines_not_Nil:
  assumes "\<exists>c\<in>set t. \<not> isWhiteSpace c"
  shows "nonempty_lines t \<noteq> []"
proof -
  from assms obtain c where c: "c \<in> set t" "\<not> isWhiteSpace c" by blast
  then have "c \<noteq> CHR 0x0A" by (auto simp: isWhiteSpace_def)
  with c obtain l where l: "l \<in> set (split_nl t)" "c \<in> set l"
    using split_nl_covers by blast
  with c have "trim l \<noteq> []" by (auto simp: trim_eq_Nil_iff)
  with l have "l \<in> set (nonempty_lines t)" by (simp add: nonempty_lines_def)
  then show ?thesis by auto
qed

lemma push_lines_eq:
  "n \<le> int (length ls) \<Longrightarrow>
   push_lines i n ls acc =
     Inr (acc @ map (\<lambda>j. \<lparr>sug_text = trim (ls ! j),
                          confidence = Some (9 / 10 - of_nat j * (1 / 10)),
                          sug_type = Some completion\<rparr>) [i..<nat n])"
proof (induction i n ls acc rule: push_lines.induct)
  case (1 i n ls acc)
  show ?case
  proof (cases "int i < n")
    case True
    then have il: "i < length ls" using "1.prems" by linarith
    have up: "[i..<nat n] = i # [Suc i..<nat n]"
      using True by (simp add: upt_conv_Cons)
    show ?thesis
      using "1.IH" [OF True il "1.prems"] True il
      by (subst push_lines.simps) (simp add: up)
  next
    case False
    then show ?thesis
      by (subst push_lines.simps) simp
  qed
qed

lemma getProp_object: "v \<noteq> JUndefined \<Longrightarrow> v \<noteq> JNull \<Longrightarrow> getProp v k = Inr (lookup_prop v k)"
  by (cases v) simp_all

lemma claude_scan_skip:
  "\<forall>b\<in>set pre. b \<noteq> JUndefined \<and> b \<noteq> JNull \<and> lookup_prop b ''type'' \<noteq> JStr ''text'' \<Longrightarrow>
   claude_scan (pre @ rest) m = claude_scan rest m"
  by (induction pre) (simp_all add: getProp_object)


lemma lookup_prop_nullish: "lookup_prop v k \<noteq> JUndefined \<Longrightarrow> v \<noteq> JUndefined \<and> v \<noteq> JNull"
  by (cases v) auto

lemma claude_fallback_nonempty: "sugs \<noteq> [] \<Longrightarrow> claude_fallback content sugs = Inr sugs"
  by (simp add: claude_fallback_def)


text \<open>
  What claim C8 says holds when the first text block is not blank. If the first block of
  type \<^verbatim>\<open>text\<close> in \<^verbatim>\<open>data.content\<close> carries a string that is not blank and
  \<^verbatim>\<open>maxSuggestions\<close> is positive, the Claude parser splits the trimmed text into its
  non-empty lines, keeps the first \<^verbatim>\<open>maxSuggestions\<close> of them, and returns one suggestion
  per kept line \<open>i\<close> (from 0), holding the trimmed line and the confidence
  \<open>0.9 - 0.1 * i\<close>. For the text \<^verbatim>\<open>a\nb\nc\<close> and \<^verbatim>\<open>maxSuggestions = 2\<close> these are
  \<^verbatim>\<open>a\<close> with 0.9 and \<^verbatim>\<open>b\<close> with 0.8; the third line is dropped.
\<close>

theorem Claude_first_text_block_lines:
  assumes content: "lookup_prop data ''content'' = JArr (pre @ block # post)"
      and pre: "\<forall>b\<in>set pre. b \<noteq> JUndefined \<and> b \<noteq> JNull \<and> lookup_prop b ''type'' \<noteq> JStr ''text''"
      and block: "lookup_prop block ''type'' = JStr ''text''" "lookup_prop block ''text'' = JStr s"
                 "trim s \<noteq> []"
      and max: "0 < cap"
  shows "\<exists>r. ClaudeClient_parseResponse data cap = Inr r
           \<and> suggestions r =
               map (\<lambda>i. \<lparr>sug_text = trim (nonempty_lines (trim s) ! i),
                          confidence = Some (9 / 10 - of_nat i * (1 / 10)),
                          sug_type = Some completion\<rparr>)
                 [0..<min (length (nonempty_lines (trim s))) (nat cap)]"
proof -
  let ?L = "nonempty_lines (trim s)"
  let ?mk = "\<lambda>i. \<lparr>sug_text = trim (?L ! i), confidence = Some (9 / 10 - of_nat i * (1 / 10)),
                   sug_type = Some completion\<rparr>"
  let ?n = "min (int (length ?L)) cap"
  have data: "getProp data ''content'' = Inr (JArr (pre @ block # post))"
    using content lookup_prop_nullish [of data "''content''"] by (simp add: getProp_object)
  have blk: "getProp block ''type'' = Inr (JStr ''text'')" "getProp block ''text'' = Inr (JStr s)"
    using block lookup_prop_nullish [of block "''type''"] by (simp_all add: getProp_object)
  have "claude_scan (pre @ block # post) cap = claude_scan (block # post) cap"
    using pre by (rule claude_scan_skip)
  also have "\<dots> = push_lines 0 ?n ?L []"
    using blk block(3) by (auto simp: trim_Nil)
  also have "\<dots> = Inr (map ?mk [0..<nat ?n])"
    using push_lines_eq [of ?n ?L 0 "[]"] by simp
  finally have scan: "claude_scan (pre @ block # post) cap = Inr (map ?mk [0..<nat ?n])" .
  have "?L \<noteq> []"
    using block(3) by (intro nonempty_lines_not_Nil trim_idem_nonblank)
  then have "0 < int (length ?L)" by simp
  then have pos: "0 < ?n" using max by (simp add: min_def)
  then have "0 < nat ?n" by linarith
  then have "[0..<nat ?n] \<noteq> []" by (simp del: zero_less_nat_eq)
  then have ne: "map ?mk [0..<nat ?n] \<noteq> []" by (simp only: map_is_Nil_conv not_False_eq_True)
  have n: "nat ?n = min (length ?L) (nat cap)" using max by linarith
  show ?thesis
    using data scan claude_fallback_nonempty [OF ne] n
    by (simp add: ClaudeClient_parseResponse_def)
qed

theorem Claude_first_text_block_lines_witness:
  "0 < (2::int)
   \<and> (\<exists>r. ClaudeClient_parseResponse
          (JObj [(''content'', JArr [JObj [(''type'', JStr ''text''),
                                          (''text'', JStr (''a'' @ LF @ ''b'' @ LF @ ''c''))]])]) 2 = Inr r
        \<and> suggestions r =
            [\<lparr>sug_text = ''a'', confidence = Some (9 / 10), sug_type = Some completion\<rparr>,
             \<lparr>sug_text = ''b'', confidence = Some (8 / 10), sug_type = Some completion\<rparr>])
   \<and> (\<exists>r. ClaudeClient_parseResponse
          (JObj [(''content'', JArr [JObj [(''type'', JStr ''tool_use'')],
                                    JObj [(''type'', JStr ''text''),
                                          (''text'', JStr ('' x = 1 '' @ LF @ LF @ ''y = 2'' @ LF))],
                                    JObj [(''type'', JStr ''text''), (''text'', JStr ''z'')]])]) 5 = Inr r
        \<and> suggestions r =
            [\<lparr>sug_text = ''x = 1'', confidence = Some (9 / 10), sug_type = Some completion\<rparr>,
             \<lparr>sug_text = ''y = 2'', confidence = Some (8 / 10), sug_type = Some completion\<rparr>])
   \<and> (\<exists>r. ClaudeClient_parseResponse
          (JObj [(''content'', JArr [JObj [(''type'', JStr ''text''),
                                          (''text'', JStr (''a'' @ LF @ [CHR 0xA0] @ LF @ ''b''))]])]) 5
            = Inr r
        \<and> suggestions r =
            [\<lparr>sug_text = ''a'', confidence = Some (9 / 10), sug_type = Some completion\<rparr>,
             \<lparr>sug_text = ''b'', confidence = Some (8 / 10), sug_type = Some completion\<rparr>])"
  using Claude_first_text_block_lines
    [of "JObj [(''content'', JArr [JObj [(''type'', JStr ''text''),
                                          (''text'', JStr (''a'' @ LF @ ''b'' @ LF @ ''c''))]])]"
        "[]" "JObj [(''type'', JStr ''text''), (''text'', JStr (''a'' @ LF @ ''b'' @ LF @ ''c''))]"
        "[]" "''a'' @ LF @ ''b'' @ LF @ ''c''" 2]
    Claude_first_text_block_lines
    [of "JObj [(''content'', JArr [JObj [(''type'', JStr ''tool_use'')],
                                    JObj [(''type'', JStr ''text''),
                                          (''text'', JStr ('' x = 1 '' @ LF @ LF @ ''y = 2'' @ LF))],
                                    JObj [(''type'', JStr ''text''), (''text'', JStr ''z'')]])]"
        "[JObj [(''type'', JStr ''tool_use'')]]"
        "JObj [(''type'', JStr ''text''), (''text'', JStr ('' x = 1 '' @ LF @ LF @ ''y = 2'' @ LF))]"
        "[JObj [(''type'', JStr ''text''), (''text'', JStr ''z'')]]"
        "'' x = 1 '' @ LF @ LF @ ''y = 2'' @ LF" 5]
    Claude_first_text_block_lines
    [of "JObj [(''content'', JArr [JObj [(''type'', JStr ''text''),
                                          (''text'', JStr (''a'' @ LF @ [CHR 0xA0] @ LF @ ''b''))]])]"
        "[]" "JObj [(''type'', JStr ''text''), (''text'', JStr (''a'' @ LF @ [CHR 0xA0] @ LF @ ''b''))]"
        "[]" "''a'' @ LF @ [CHR 0xA0] @ LF @ ''b''" 5]
  by (simp add: LF_def trim_def isWhiteSpace_def nonempty_lines_def upt_rec)

subsection \<open>The OpenAI parser\<close>

lemma lookup_prop_falsy: "\<not> truthy v \<Longrightarrow> lookup_prop v k = JUndefined"
  by (cases v) simp_all

lemma getProp_truthy: "truthy v \<Longrightarrow> getProp v k = Inr (lookup_prop v k)"
  by (cases v) simp_all

lemma openai_scan_Cons:
  assumes "choice \<noteq> JUndefined" "choice \<noteq> JNull"
  shows "openai_scan (choice # rest) acc =
     (if \<not> truthy (message_content choice) then openai_scan rest acc
      else (case js_trim (message_content choice) ''choice.message.content'' of
              Inl e \<Rightarrow> Inl e
            | Inr t \<Rightarrow>
                if t = [] then openai_scan rest acc
                else openai_scan rest
                       (acc @ [\<lparr>sug_text = t, confidence = None, sug_type = Some completion\<rparr>])))"
proof (cases "truthy (lookup_prop choice ''message'')")
  case True
  then show ?thesis
    using assms by (simp add: getProp_object getProp_truthy message_content_def)
next
  case False
  then show ?thesis
    using assms by (simp add: getProp_object lookup_prop_falsy message_content_def)
qed

lemma openai_scan_length:
  "openai_scan items acc = Inr r \<Longrightarrow> length r = length acc + length (filter has_content items)"
proof (induction items arbitrary: acc)
  case Nil
  then show ?case by simp
next
  case (Cons choice rest)
  have nn: "choice \<noteq> JUndefined" "choice \<noteq> JNull"
    using Cons.prems by auto
  from Cons.prems have step:
    "(if \<not> truthy (message_content choice) then openai_scan rest acc
      else (case js_trim (message_content choice) ''choice.message.content'' of
              Inl e \<Rightarrow> Inl e
            | Inr t \<Rightarrow>
                if t = [] then openai_scan rest acc
                else openai_scan rest
                       (acc @ [\<lparr>sug_text = t, confidence = None, sug_type = Some completion\<rparr>])))
     = Inr r"
    by (simp only: openai_scan_Cons [OF nn])
  show ?case
  proof (cases "message_content choice")
    case (JStr s)
    then show ?thesis
      using step Cons.IH
      by (auto simp: has_content_def trim_Nil split: if_splits)
  qed (use step Cons.IH in \<open>auto simp: has_content_def split: if_splits\<close>)
qed

lemma openai_scan_total:
  "list_all well_formed_choice items \<Longrightarrow> \<exists>r. openai_scan items acc = Inr r"
proof (induction items arbitrary: acc)
  case Nil
  then show ?case by simp
next
  case (Cons choice rest)
  then have wf: "well_formed_choice choice" and rest: "list_all well_formed_choice rest" by simp_all
  then have nn: "choice \<noteq> JUndefined" "choice \<noteq> JNull"
    by (simp_all add: well_formed_choice_def)
  show ?case
  proof (cases "message_content choice")
    case (JStr s)
    then show ?thesis
      using Cons.IH [OF rest] by (simp only: openai_scan_Cons [OF nn]) simp
  qed (use wf Cons.IH [OF rest] in
        \<open>simp_all only: openai_scan_Cons [OF nn], simp_all add: well_formed_choice_def\<close>)
qed

lemma OpenAIClient_parseResponse_length:
  "OpenAIClient_parseResponse data = Inr r \<Longrightarrow>
   length (suggestions r) = length (filter has_content (choices_of data))"
proof -
  assume p: "OpenAIClient_parseResponse data = Inr r"
  then have nn: "data \<noteq> JUndefined" "data \<noteq> JNull"
    by (auto simp: OpenAIClient_parseResponse_def)
  show ?thesis
  proof (cases "lookup_prop data ''choices''")
    case (JArr items)
    then obtain sugs where "openai_scan items [] = Inr sugs" "suggestions r = sugs"
      using p nn by (auto simp: OpenAIClient_parseResponse_def getProp_object split: sum.splits)
    then show ?thesis
      using JArr openai_scan_length [of items "[]" sugs] by (simp add: choices_of_def)
  qed (use p nn in \<open>auto simp: OpenAIClient_parseResponse_def getProp_object choices_of_def\<close>)
qed

lemma OpenAIClient_parseResponse_total:
  "well_formed_body data \<Longrightarrow> \<exists>r. OpenAIClient_parseResponse data = Inr r"
proof -
  assume wf: "well_formed_body data"
  then have nn: "data \<noteq> JUndefined" "data \<noteq> JNull"
    by (simp_all add: well_formed_body_def)
  show ?thesis
  proof (cases "lookup_prop data ''choices''")
    case (JArr items)
    then have "list_all well_formed_choice items"
      using wf by (simp add: well_formed_body_def choices_of_def)
    then obtain sugs where "openai_scan items [] = Inr sugs"
      using openai_scan_total by blast
    then show ?thesis
      using JArr nn by (simp add: OpenAIClient_parseResponse_def getProp_object)
  qed (use nn in \<open>simp_all add: OpenAIClient_parseResponse_def getProp_object\<close>)
qed

text \<open>
  Claim C10. The OpenAI parser has no cap of its own. On a 2xx response whose body was
  read, every result getCompletions returns has exactly as many suggestions as there are
  choices with a content that is not blank, whatever \<^verbatim>\<open>maxSuggestions\<close> is; on every
  well-formed body it does return a result; and \<^verbatim>\<open>maxSuggestions\<close> (3 when absent or 0)
  only becomes the field \<^verbatim>\<open>n\<close> of the request body.
\<close>

theorem C10_openai_no_client_side_cap:
  assumes "fetch (openai_request cfg (OpenAIClient_buildPrompt request) request) = Inr response"
      and "response_ok response" and "json response = Inr data"
  shows "(\<forall>r w'. OpenAIClient_getCompletions cfg fetch request w = (Inr r, w') \<longrightarrow>
            length (suggestions r) = length (filter has_content (choices_of data)))
       \<and> (well_formed_body data \<longrightarrow>
            (\<exists>r w'. OpenAIClient_getCompletions cfg fetch request w = (Inr r, w')))
       \<and> lookup_prop (body (openai_request cfg (OpenAIClient_buildPrompt request) request)) ''n''
           = JNum (of_int (or_int (maxSuggestions request) 3))"
proof (intro conjI allI impI)
  fix r w'
  assume "OpenAIClient_getCompletions cfg fetch request w = (Inr r, w')"
  then have "OpenAIClient_parseResponse data = Inr r"
    using assms
    by (auto simp: OpenAIClient_getCompletions_def Let_def rethrow_def split: sum.splits)
  then show "length (suggestions r) = length (filter has_content (choices_of data))"
    by (rule OpenAIClient_parseResponse_length)
next
  assume "well_formed_body data"
  then obtain r where "OpenAIClient_parseResponse data = Inr r"
    using OpenAIClient_parseResponse_total by blast
  then show "\<exists>r w'. OpenAIClient_getCompletions cfg fetch request w = (Inr r, w')"
    using assms by (simp add: OpenAIClient_getCompletions_def Let_def)
next
  show "lookup_prop (body (openai_request cfg (OpenAIClient_buildPrompt request) request)) ''n''
           = JNum (of_int (or_int (maxSuggestions request) 3))"
    by (simp add: openai_request_def)
qed

theorem C10_openai_no_client_side_cap_witness:
  "response_ok (ok_response three_choices)
   \<and> (\<exists>r w'. OpenAIClient_getCompletions sample_config (\<lambda>q. Inr (ok_response three_choices))
                \<lparr>prompt = ''x = '', context_opt = None, language = None, maxSuggestions = Some 1\<rparr>
                idle = (Inr r, w')
              \<and> length (suggestions r) = 2)
   \<and> lookup_prop (body (openai_request sample_config
          (OpenAIClient_buildPrompt
             \<lparr>prompt = ''x = '', context_opt = None, language = None, maxSuggestions = Some 1\<rparr>)
          \<lparr>prompt = ''x = '', context_opt = None, language = None, maxSuggestions = Some 1\<rparr>)) ''n''
       = JNum 1
   \<and> (\<exists>r w'. OpenAIClient_getCompletions sample_config (\<lambda>q. Inr (ok_response nbsp_choices))
                \<lparr>prompt = ''x = '', context_opt = None, language = None, maxSuggestions = None\<rparr>
                idle = (Inr r, w')
              \<and> length (suggestions r) = 1)"
proof -
  have ok: "response_ok (ok_response three_choices)" "response_ok (ok_response nbsp_choices)"
    by (simp_all add: response_ok_def ok_response_def)
  have js: "json (ok_response three_choices) = Inr three_choices"
    "json (ok_response nbsp_choices) = Inr nbsp_choices"
    by (simp_all add: ok_response_def)
  have wf: "well_formed_body three_choices" "well_formed_body nbsp_choices"
    by (simp_all add: well_formed_body_def well_formed_choice_def choices_of_def three_choices_def
        nbsp_choices_def message_content_def)
  have cnt: "length (filter has_content (choices_of three_choices)) = 2"
    "length (filter has_content (choices_of nbsp_choices)) = 1"
    by (simp_all add: has_content_def choices_of_def three_choices_def nbsp_choices_def
        message_content_def trim_def isWhiteSpace_def)
  note inst = C10_openai_no_client_side_cap
    [of "\<lambda>q. Inr (ok_response three_choices)" sample_config
        "\<lparr>prompt = ''x = '', context_opt = None, language = None, maxSuggestions = Some 1\<rparr>"
        "ok_response three_choices" three_choices idle, OF refl ok(1) js(1)]
  note inst2 = C10_openai_no_client_side_cap
    [of "\<lambda>q. Inr (ok_response nbsp_choices)" sample_config
        "\<lparr>prompt = ''x = '', context_opt = None, language = None, maxSuggestions = None\<rparr>"
        "ok_response nbsp_choices" nbsp_choices idle, OF refl ok(2) js(2)]
  show ?thesis
    using inst inst2 wf cnt ok by (auto simp: or_int_def)
qed

subsection \<open>The parser of the built bundle\<close>

lemma lib_openai_scan_Cons:
  assumes "choice \<noteq> JUndefined" "choice \<noteq> JNull"
  shows "lib_openai_scan (choice # rest) acc =
     (if \<not> truthy (message_content choice) then lib_openai_scan rest acc
      else (case js_trim (message_content choice) ''choice.message.content'' of
              Inl e \<Rightarrow> Inl e
            | Inr t \<Rightarrow>
                if t = [] then lib_openai_scan rest acc
                else lib_openai_scan rest
                       (acc @ [\<lparr>sug_text = t, confidence = Some (calculateConfidence choice),
                                sug_type = Some completion\<rparr>])))"
proof (cases "truthy (lookup_prop choice ''message'')")
  case True
  then show ?thesis
    using assms by (simp add: getProp_object getProp_truthy message_content_def)
next
  case False
  then show ?thesis
    using assms by (simp add: getProp_object lookup_prop_falsy message_content_def)
qed

lemma lib_openai_scan_result:
  "lib_openai_scan items acc = Inr r \<Longrightarrow>
   r = acc @ map (\<lambda>choice. \<lparr>sug_text = content_text choice,
                              confidence = Some (calculateConfidence choice),
                              sug_type = Some completion\<rparr>) (filter has_content items)"
proof (induction items arbitrary: acc)
  case Nil
  then show ?case by simp
next
  case (Cons choice rest)
  have nn: "choice \<noteq> JUndefined" "choice \<noteq> JNull"
    using Cons.prems by auto
  from Cons.prems have step:
    "(if \<not> truthy (message_content choice) then lib_openai_scan rest acc
      else (case js_trim (message_content choice) ''choice.message.content'' of
              Inl e \<Rightarrow> Inl e
            | Inr t \<Rightarrow>
                if t = [] then lib_openai_scan rest acc
                else lib_openai_scan rest
                       (acc @ [\<lparr>sug_text = t, confidence = Some (calculateConfidence choice),
                                sug_type = Some completion\<rparr>])))
     = Inr r"
    by (simp only: lib_openai_scan_Cons [OF nn])
  show ?case
  proof (cases "message_content choice")
    case (JStr s)
    show ?thesis
    proof (cases "trim s = []")
      case True
      then have "lib_openai_scan rest acc = Inr r"
        using step JStr by (simp split: if_splits)
      then show ?thesis
        using Cons.IH [of acc] JStr True by (simp add: has_content_def)
    next
      case False
      then have "s \<noteq> []" by (auto simp: trim_Nil)
      then have "lib_openai_scan rest
          (acc @ [\<lparr>sug_text = trim s, confidence = Some (calculateConfidence choice),
                   sug_type = Some completion\<rparr>]) = Inr r"
        using step JStr False by simp
      then show ?thesis
        using Cons.IH [of "acc @ [\<lparr>sug_text = trim s, confidence = Some (calculateConfidence choice),
                   sug_type = Some completion\<rparr>]"] JStr False
        by (simp add: has_content_def content_text_def)
    qed
  qed (use step Cons.IH in \<open>auto simp: has_content_def split: if_splits\<close>)
qed

text \<open>
  The parser of \<^verbatim>\<open>src/lib/index.js\<close> does what claim C7 says: whenever it returns, it
  has emitted, in order, one suggestion of type \<^verbatim>\<open>completion\<close> per choice whose content
  is not blank, holding the trimmed content and the confidence 0.9 for the finish reason
  \<^verbatim>\<open>stop\<close>, 0.7 for \<^verbatim>\<open>length\<close> and 0.5 for anything else.
\<close>

theorem lib_parseResponse_confidence_from_finish_reason:
  "(lib_OpenAIClient_parseResponse data = Inr r \<longrightarrow>
      suggestions r =
        map (\<lambda>choice. \<lparr>sug_text = content_text choice,
                        confidence = Some (if lookup_prop choice ''finish_reason'' = JStr ''stop''
                                           then 9 / 10
                                           else if lookup_prop choice ''finish_reason'' = JStr ''length''
                                           then 7 / 10 else 5 / 10),
                        sug_type = Some completion\<rparr>)
          (filter has_content (choices_of data)))"
proof
  assume p: "lib_OpenAIClient_parseResponse data = Inr r"
  then have nn: "data \<noteq> JUndefined" "data \<noteq> JNull"
    by (auto simp: lib_OpenAIClient_parseResponse_def)
  show "suggestions r =
        map (\<lambda>choice. \<lparr>sug_text = content_text choice,
                        confidence = Some (if lookup_prop choice ''finish_reason'' = JStr ''stop''
                                           then 9 / 10
                                           else if lookup_prop choice ''finish_reason'' = JStr ''length''
                                           then 7 / 10 else 5 / 10),
                        sug_type = Some completion\<rparr>)
          (filter has_content (choices_of data))"
  proof (cases "lookup_prop data ''choices''")
    case (JArr items)
    then obtain sugs where "lib_openai_scan items [] = Inr sugs" "suggestions r = sugs"
      using p nn by (auto simp: lib_OpenAIClient_parseResponse_def getProp_object split: sum.splits)
    then show ?thesis
      using JArr lib_openai_scan_result [of items "[]" sugs]
      by (simp add: choices_of_def calculateConfidence_def)
  qed (use p nn in \<open>auto simp: lib_OpenAIClient_parseResponse_def getProp_object choices_of_def\<close>)
qed

theorem lib_parseResponse_confidence_witness:
  "lib_OpenAIClient_parseResponse three_choices
     = Inr \<lparr>suggestions = [\<lparr>sug_text = ''foo'', confidence = Some (9 / 10), sug_type = Some completion\<rparr>,
                            \<lparr>sug_text = ''bar'', confidence = Some (7 / 10), sug_type = Some completion\<rparr>],
            resp_model = JUndefined, usage = None\<rparr>"
proof -
  have ev: "lib_OpenAIClient_parseResponse three_choices
     = Inr \<lparr>suggestions = [\<lparr>sug_text = ''foo'', confidence = Some (9 / 10), sug_type = Some completion\<rparr>,
                            \<lparr>sug_text = ''bar'', confidence = Some (7 / 10), sug_type = Some completion\<rparr>],
            resp_model = JUndefined, usage = None\<rparr>"
    by (simp add: lib_OpenAIClient_parseResponse_def three_choices_def openai_usage_def
        calculateConfidence_def trim_def isWhiteSpace_def)
  from lib_parseResponse_confidence_from_finish_reason [of three_choices] ev
  show ?thesis by simp
qed

text \<open>
  Claim C7. Every choice with a message body must give one suggestion of type
  \<^verbatim>\<open>completion\<close> whose confidence comes from the finish reason. The parser in
  \<^verbatim>\<open>src/lib/index.js\<close> does that, through \<^verbatim>\<open>calculateConfidence\<close>; the parser in
  \<^verbatim>\<open>src/src/ai-client.ts\<close> has lost the field: for the choice
  \<^verbatim>\<open>{message: {content: "foo"}, finish_reason: "stop"}\<close> it returns the suggestion
  \<^verbatim>\<open>foo\<close> with no confidence, where the bundle returns it with 0.9.
\<close>

theorem C7_openai_suggestion_without_confidence:
  "OpenAIClient_parseResponse foo_stop
     = Inr \<lparr>suggestions = [\<lparr>sug_text = ''foo'', confidence = None, sug_type = Some completion\<rparr>],
            resp_model = JUndefined, usage = None\<rparr>
   \<and> lib_OpenAIClient_parseResponse foo_stop
     = Inr \<lparr>suggestions = [\<lparr>sug_text = ''foo'', confidence = Some (9 / 10),
                              sug_type = Some completion\<rparr>],
            resp_model = JUndefined, usage = None\<rparr>"
  by (simp add: OpenAIClient_parseResponse_def lib_OpenAIClient_parseResponse_def foo_stop_def
      openai_usage_def calculateConfidence_def trim_def isWhiteSpace_def)

subsection \<open>The Claude parser: the range of the confidence\<close>

text \<open>
  Claim C9. A confidence that is present must lie in \<open>[0,1]\<close>, whatever the body and
  whatever \<^verbatim>\<open>maxSuggestions\<close>, as the comment on \<^verbatim>\<open>CompletionSuggestion.confidence\<close>
  says (0.0-1.0). With a text of eleven lines and \<^verbatim>\<open>maxSuggestions = 11\<close> the Claude
  parser gives the eleventh suggestion the confidence \<open>0.9 - 10 * 0.1 = -0.1\<close>.
\<close>

theorem C9_eleventh_suggestion_negative_confidence:
  "\<exists>r. ClaudeClient_parseResponse (claude_body eleven_lines) 11 = Inr r
       \<and> map sug_text (suggestions r) =
           [''a'', ''b'', ''c'', ''d'', ''e'', ''f'', ''g'', ''h'', ''i'', ''j'', ''k'']
       \<and> map confidence (suggestions r) =
           [Some (9 / 10), Some (8 / 10), Some (7 / 10), Some (6 / 10), Some (5 / 10),
            Some (4 / 10), Some (3 / 10), Some (2 / 10), Some (1 / 10), Some 0, Some (- 1 / 10)]"
  by (simp add: ClaudeClient_parseResponse_def claude_body_def eleven_lines_def LF_def
      nonempty_lines_def trim_def isWhiteSpace_def push_lines.simps claude_fallback_def
      claude_usage_def)

lemma claude_scan_confidence:
  "claude_scan items cap = Inr sugs \<Longrightarrow>
   \<forall>g\<in>set sugs. \<exists>i. int i < cap \<and> confidence g = Some (9 / 10 - of_nat i * (1 / 10))"
  by (induction items cap arbitrary: sugs rule: claude_scan.induct)
     (auto simp: push_lines_eq split: sum.splits if_splits)

text \<open>
  Up to \<^verbatim>\<open>maxSuggestions = 10\<close> the range holds: every suggestion the Claude parser
  returns has a confidence in \<open>[0,1]\<close>.
\<close>

theorem Claude_confidence_in_range_up_to_ten:
  assumes "cap \<le> 10" and "ClaudeClient_parseResponse data cap = Inr r"
  shows "\<forall>g\<in>set (suggestions r). \<forall>c. confidence g = Some c \<longrightarrow> 0 \<le> c \<and> c \<le> 1"
proof -
  from assms(2) obtain content sugs where
      scan: "(case content of JArr items \<Rightarrow> claude_scan items cap | _ \<Rightarrow> Inr []) = Inr sugs"
      and fb: "claude_fallback content sugs = Inr (suggestions r)"
    by (auto simp: ClaudeClient_parseResponse_def split: sum.splits)
  have inner: "\<forall>g\<in>set sugs. \<forall>c. confidence g = Some c \<longrightarrow> 0 \<le> c \<and> c \<le> 1"
  proof (intro ballI allI impI)
    fix g c assume g: "g \<in> set sugs" and c: "confidence g = Some c"
    then obtain items where "content = JArr items" "claude_scan items cap = Inr sugs"
      using scan by (cases content) auto
    then obtain i where i: "int i < cap" "confidence g = Some (9 / 10 - of_nat i * (1 / 10))"
      using claude_scan_confidence g by blast
    then have "i \<le> 9" using assms(1) by linarith
    then have "(of_nat i :: rat) \<le> 9" by (metis of_nat_le_iff of_nat_numeral)
    moreover have "(0::rat) \<le> of_nat i" by simp
    moreover have "c = 9 / 10 - of_nat i * (1 / 10)" using i(2) c by simp
    ultimately show "0 \<le> c \<and> c \<le> 1" by simp
  qed
  have "sugs = suggestions r
      \<or> (\<exists>t. [\<lparr>sug_text = t, confidence = Some (9 / 10), sug_type = Some completion\<rparr>]
               = suggestions r)"
    using fb by (auto simp: claude_fallback_def split: if_splits sum.splits)
  then show ?thesis
  proof
    assume "sugs = suggestions r"
    then show ?thesis using inner by simp
  next
    assume "\<exists>t. [\<lparr>sug_text = t, confidence = Some (9 / 10), sug_type = Some completion\<rparr>]
               = suggestions r"
    then obtain t where
      "suggestions r = [\<lparr>sug_text = t, confidence = Some (9 / 10), sug_type = Some completion\<rparr>]"
      by metis
    then show ?thesis by auto
  qed
qed

theorem Claude_confidence_in_range_witness:
  "(3::int) \<le> 10
   \<and> ClaudeClient_parseResponse (claude_body eleven_lines) 3
      = Inr \<lparr>suggestions =
               [\<lparr>sug_text = ''a'', confidence = Some (9 / 10), sug_type = Some completion\<rparr>,
                \<lparr>sug_text = ''b'', confidence = Some (8 / 10), sug_type = Some completion\<rparr>,
                \<lparr>sug_text = ''c'', confidence = Some (7 / 10), sug_type = Some completion\<rparr>],
             resp_model = JUndefined, usage = None\<rparr>
   \<and> list_all (\<lambda>g. case confidence g of None \<Rightarrow> True | Some c \<Rightarrow> 0 \<le> c \<and> c \<le> 1)
        [\<lparr>sug_text = ''a'', confidence = Some (9 / 10), sug_type = Some completion\<rparr>,
         \<lparr>sug_text = ''b'', confidence = Some (8 / 10), sug_type = Some completion\<rparr>,
         \<lparr>sug_text = ''c'', confidence = Some (7 / 10), sug_type = Some completion\<rparr>]"
proof -
  have ev: "ClaudeClient_parseResponse (claude_body eleven_lines) 3
      = Inr \<lparr>suggestions =
               [\<lparr>sug_text = ''a'', confidence = Some (9 / 10), sug_type = Some completion\<rparr>,
                \<lparr>sug_text = ''b'', confidence = Some (8 / 10), sug_type = Some completion\<rparr>,
                \<lparr>sug_text = ''c'', confidence = Some (7 / 10), sug_type = Some completion\<rparr>],
             resp_model = JUndefined, usage = None\<rparr>"
    by (simp add: ClaudeClient_parseResponse_def claude_body_def eleven_lines_def LF_def
        nonempty_lines_def trim_def isWhiteSpace_def push_lines.simps claude_fallback_def
        claude_usage_def)
  have le: "(3::int) \<le> 10" by simp
  from Claude_confidence_in_range_up_to_ten [OF le ev] ev le
  show ?thesis by simp
qed

section \<open>BaseAIClient: properties\<close>

text \<open>
  \<^verbatim>\<open>BaseAIClient\<close> validates at construction: a blank key is refused with the
  \<^verbatim>\<open>AIClientError\<close> "API key is required and must be a non-empty string" (its provider
  is still unset), and a configuration with a key that is not blank, a temperature absent
  or in \<open>[0,1]\<close> and a \<^verbatim>\<open>maxTokens\<close> absent or positive is accepted.
\<close>

theorem BaseAIClient_constructor_validates:
  "(trim (apiKey c) = [] \<longrightarrow>
      BaseAIClient_constructor nc c prov =
        Inl (AIClientError ''API key is required and must be a non-empty string'' None None None))
   \<and> (trim (apiKey c) \<noteq> []
        \<and> (case temperature c of None \<Rightarrow> True | Some t \<Rightarrow> 0 \<le> t \<and> t \<le> 1)
        \<and> (case maxTokens c of None \<Rightarrow> True | Some m \<Rightarrow> 0 < m) \<longrightarrow>
      BaseAIClient_constructor nc c prov = Inr \<lparr>client_config = nc c, client_provider = prov\<rparr>)"
  by (simp add: BaseAIClient_constructor_def validateConfig_blank_apiKey validateConfig_accepts)

theorem BaseAIClient_constructor_validates_witness:
  "trim (apiKey \<lparr>apiKey = ''  '', baseURL = None, model = None, maxTokens = None,
                  temperature = None\<rparr>) = []
   \<and> BaseAIClient_constructor (\<lambda>c. sample_config)
        \<lparr>apiKey = ''  '', baseURL = None, model = None, maxTokens = None, temperature = None\<rparr>
        ''claude''
      = Inl (AIClientError ''API key is required and must be a non-empty string'' None None None)
   \<and> BaseAIClient_constructor (\<lambda>c. sample_config)
        \<lparr>apiKey = ''sk-0123456789'', baseURL = None, model = None, maxTokens = Some 100,
          temperature = Some 0\<rparr> ''claude''
      = Inr \<lparr>client_config = sample_config, client_provider = ''claude''\<rparr>"
  using BaseAIClient_constructor_validates
      [of "\<lparr>apiKey = ''  '', baseURL = None, model = None, maxTokens = None, temperature = None\<rparr>"
          "\<lambda>c. sample_config" "''claude''"]
    BaseAIClient_constructor_validates
      [of "\<lparr>apiKey = ''sk-0123456789'', baseURL = None, model = None, maxTokens = Some 100,
            temperature = Some 0\<rparr>" "\<lambda>c. sample_config" "''claude''"]
  by (simp add: trim_def isWhiteSpace_def)

text \<open>
  \<^verbatim>\<open>BaseAIClient.getCompletions\<close> validates first: a request with a blank prompt, or
  with a \<^verbatim>\<open>maxSuggestions\<close> that is not positive, fails with the \<^verbatim>\<open>AIClientError\<close> of
  \<^verbatim>\<open>validateRequest\<close>, tagged with the client's provider, whatever \<^verbatim>\<open>callAPI\<close> would
  do; the world is left as it was.
\<close>

theorem BaseAIClient_getCompletions_validates_first:
  "(trim (prompt request) = [] \<longrightarrow>
      BaseAIClient_getCompletions this callAPI parseResponse d request w =
        (Inl (AIClientError ''Prompt is required and must be a non-empty string''
                (Some (client_provider this)) None None), w))
   \<and> (trim (prompt request) \<noteq> [] \<and> (\<exists>m. maxSuggestions request = Some m \<and> m \<le> 0) \<longrightarrow>
      BaseAIClient_getCompletions this callAPI parseResponse d request w =
        (Inl (AIClientError ''Max suggestions must be a positive number''
                (Some (client_provider this)) None None), w))"
  by (auto simp: BaseAIClient_getCompletions_def validateRequest_blank_prompt
      validateRequest_maxSuggestions)

theorem BaseAIClient_getCompletions_validates_first_witness:
  "trim (prompt \<lparr>prompt = ''   '', context_opt = None, language = None, maxSuggestions = Some 0\<rparr>)
     = []
   \<and> BaseAIClient_getCompletions \<lparr>client_config = sample_config, client_provider = ''claude''\<rparr>
        (\<lambda>p r w. (Inr JNull, w\<lparr>sent := sent w @ [claude_request sample_config p]\<rparr>))
        ClaudeClient_parseResponse 3
        \<lparr>prompt = ''   '', context_opt = None, language = None, maxSuggestions = Some 0\<rparr> idle
      = (Inl (AIClientError ''Prompt is required and must be a non-empty string''
                (Some ''claude'') None None), idle)
   \<and> BaseAIClient_getCompletions \<lparr>client_config = sample_config, client_provider = ''claude''\<rparr>
        (\<lambda>p r w. (Inr JNull, w\<lparr>sent := sent w @ [claude_request sample_config p]\<rparr>))
        ClaudeClient_parseResponse 3
        \<lparr>prompt = ''x = '', context_opt = None, language = None, maxSuggestions = Some (- 2)\<rparr> idle
      = (Inl (AIClientError ''Max suggestions must be a positive number''
                (Some ''claude'') None None), idle)"
  using BaseAIClient_getCompletions_validates_first
      [of "\<lparr>prompt = ''   '', context_opt = None, language = None, maxSuggestions = Some 0\<rparr>"
          "\<lparr>client_config = sample_config, client_provider = ''claude''\<rparr>"
          "\<lambda>p r w. (Inr JNull, w\<lparr>sent := sent w @ [claude_request sample_config p]\<rparr>)"
          ClaudeClient_parseResponse 3 idle]
    BaseAIClient_getCompletions_validates_first
      [of "\<lparr>prompt = ''x = '', context_opt = None, language = None, maxSuggestions = Some (- 2)\<rparr>"
          "\<lparr>client_config = sample_config, client_provider = ''claude''\<rparr>"
          "\<lambda>p r w. (Inr JNull, w\<lparr>sent := sent w @ [claude_request sample_config p]\<rparr>)"
          ClaudeClient_parseResponse 3 idle]
  by (simp add: trim_def isWhiteSpace_def)

end
